theory Spec2Isabelle
  imports Main "HOL-Library.Word"
begin

section \<open>Errors and results\<close>

text \<open>
  Errors raised outside the two packages (netlink, os, encoding/json, ethtool, the CNI
  library).  \<open>LinkNotFoundError\<close> is the value that satisfies the type assertion
  \<^verbatim>\<open>err.(netlink.LinkNotFoundError)\<close>; \<open>EEXIST\<close> the one \<^verbatim>\<open>os.IsExist\<close> accepts.
\<close>

datatype ext_error = LinkNotFoundError | EEXIST | Errno string

definition IsExist :: "ext_error \<Rightarrow> bool" where
  "IsExist e = (e = EEXIST)"

text \<open>
  The errors the two packages build themselves, one constructor for each
  \<^verbatim>\<open>fmt.Errorf\<close> or \<^verbatim>\<open>errors.New\<close> of the source; \<open>External\<close> is an external error
  handed on as it came.
\<close>

datatype error =
    External ext_error
  | ErrLinkNotFound
  | FailedToLookup string ext_error
  | FailedToDelete string ext_error
  | FailedToGetAddresses string ext_error
  | CouldNotLookUp string ext_error
  | NotAVeth string
  | EthtoolInitFailed ext_error
  | EthtoolStatsFailed ext_error
  | PeerIfindexMissing
  | PeerIfindexInvalid "64 word"
  | RandomNameFailed ext_error
  | PeerAlreadyExists string string
  | FailedToMakeVethPair ext_error
  | NoUniqueVethName
  | ParseConfigFailed ext_error
  | RateWithoutBurst
  | BurstWithoutRate
  | BurstTooLarge
  | PrevResultParseFailed ext_error
  | PrevResultConvertFailed ext_error
  | NotChained
  | OpenNetnsFailed ext_error
  | NoInterfacesProvided
  | NoVethPeer string "error option"
  | PeerNotInHostNS int
  | NoHostPeerFound
  | QdiscNotFound
  | RateMismatch
  | LimitMismatch
  | BufferMismatch
  | GetIfbDeviceFailed ext_error

text \<open>
  What a plugin command does: it returns nil or a value (\<open>Ok\<close>), returns an error
  (\<open>Err\<close>), or the Go runtime aborts it (\<open>Panic\<close>, here always the use of a nil
  pointer or nil interface value).
\<close>

datatype 'a result = Ok 'a | Err error | Panic

section \<open>pkg/ip: links and the kernel's answers\<close>

text \<open>
  A \<^verbatim>\<open>netlink.Link\<close>: its dynamic type (the type assertion \<^verbatim>\<open>link.(*netlink.Veth)\<close>
  succeeds on \<open>VethLink\<close> only) and the attributes \<^verbatim>\<open>link.Attrs()\<close> returns.
\<close>

datatype LinkType = VethLink | OtherLink string

record LinkAttrs =
  Index :: int
  MTU :: int
  Name :: string
  HardwareAddr :: string
  ParentIndex :: int

record Link =
  LinkType :: LinkType
  Attrs :: LinkAttrs

text \<open>The \<^verbatim>\<open>netlink.Veth\<close> value \<open>makeVethPair\<close> hands to \<^verbatim>\<open>netlink.LinkAdd\<close>.\<close>

record Veth =
  VethName :: string
  VethMTU :: int
  VethHardwareAddr :: "string option"
  PeerName :: string
  PeerNamespace :: int

record Addr =
  IPNet :: string
  IP :: string

record Tbf =
  Rate :: "64 word"
  Limit :: "32 word"
  Buffer :: "32 word"

text \<open>
  A \<^verbatim>\<open>netlink.Qdisc\<close> by its dynamic type: \<^verbatim>\<open>*netlink.Tbf\<close>, \<^verbatim>\<open>*netlink.PfifoFast\<close>, or
  any other kind (ingress, htb, ...), of which only the kind's name is kept.
\<close>

datatype Qdisc = TbfQ Tbf | PfifoFastQ | OtherQ string

text \<open>
  The external capabilities (netlink and netlinksafe, ethtool, and two pure functions of
  the \<^verbatim>\<open>net\<close> package), as the answers they give in one network namespace at one
  moment.  A call that returns \<^verbatim>\<open>(value, error)\<close> answers with a sum, a call that returns
  only an error with an \<open>option\<close>.  Nothing is assumed about the answers.
\<close>

record kernel =
  LinkByName :: "string \<Rightarrow> ext_error + Link"
  LinkByIndex :: "int \<Rightarrow> ext_error + Link"
  LinkAdd :: "Veth \<Rightarrow> ext_error option"
  LinkDel :: "Link \<Rightarrow> ext_error option"
  AddrList :: "Link \<Rightarrow> ext_error + Addr list"
  QdiscList :: "Link \<Rightarrow> ext_error + Qdisc list"
  ParseMAC :: "string \<Rightarrow> ext_error + string"
  IsGlobalUnicast :: "string \<Rightarrow> bool"
  NewEthtool :: "ext_error option"
  Stats :: "string \<Rightarrow> ext_error + (string \<rightharpoonup> 64 word)"

text \<open>
  \<open>makeVethPair\<close>: the error of \<^verbatim>\<open>net.ParseMAC\<close>, \<^verbatim>\<open>netlink.LinkAdd\<close> or the re-fetch
  is returned as it came.  The clean-up \<^verbatim>\<open>netlink.LinkDel(veth)\<close> after a failed re-fetch
  has its result dropped by the source, so it does not show in the value.
\<close>

definition makeVethPair ::
  "kernel \<Rightarrow> string \<Rightarrow> string \<Rightarrow> int \<Rightarrow> string \<Rightarrow> int \<Rightarrow> ext_error + Link" where
  "makeVethPair k name peer mtu mac hostNS =
     (let veth = \<lparr>VethName = name, VethMTU = mtu, VethHardwareAddr = None,
                   PeerName = peer, PeerNamespace = hostNS\<rparr>;
          parsed = (if mac \<noteq> ''''
                    then (case ParseMAC k mac of
                            Inl err \<Rightarrow> Inl err
                          | Inr m \<Rightarrow> Inr (veth\<lparr>VethHardwareAddr := Some m\<rparr>))
                    else Inr veth)
      in case parsed of
           Inl err \<Rightarrow> Inl err
         | Inr veth \<Rightarrow>
             (case LinkAdd k veth of
                Some err \<Rightarrow> Inl err
              | None \<Rightarrow>
                  (case LinkByName k name of
                     Inl err \<Rightarrow> Inl err
                   | Inr veth2 \<Rightarrow> Inr veth2)))"

definition peerExists :: "kernel \<Rightarrow> string \<Rightarrow> bool" where
  "peerExists k name = (case LinkByName k name of Inl err \<Rightarrow> False | Inr l \<Rightarrow> True)"

text \<open>\<^verbatim>\<open>%x\<close> of a byte slice: two lower-case hexadecimal digits for each byte.\<close>

definition hexdigit :: "nat \<Rightarrow> char" where
  "hexdigit n = ''0123456789abcdef'' ! (n mod 16)"

definition hex :: "8 word list \<Rightarrow> string" where
  "hex bs = concat (map (\<lambda>b. [hexdigit (unat b div 16), hexdigit (unat b mod 16)]) bs)"

text \<open>
  \<open>RandomVethName\<close>, on the answer of \<^verbatim>\<open>rand.Read\<close> for the 4-byte buffer: an error, or
  the four bytes read.
\<close>

definition RandomVethName :: "ext_error + 8 word list \<Rightarrow> string \<times> error option" where
  "RandomVethName entropy =
     (case entropy of
        Inl err \<Rightarrow> ('''', Some (RandomNameFailed err))
      | Inr bytes \<Rightarrow> (''veth'' @ hex bytes, None))"

text \<open>
  \<open>makeVeth\<close>.  The loop \<^verbatim>\<open>for i := 0; i < 10; i++\<close> is the recursion of
  \<open>makeVeth_loop\<close> on \<open>i\<close>; \<open>K i\<close> holds the kernel's answers and \<open>R i\<close> the answer of
  \<^verbatim>\<open>rand.Read\<close> during iteration \<open>i\<close> (each is asked at most once in an iteration).
  \<open>peerName\<close> is the variable declared before the loop, which the return after the loop
  still reads.  Besides the three returned values \<^verbatim>\<open>(peerName, veth, err)\<close> the model
  returns the trace of the calls of \<open>makeVethPair\<close>: the peer name of each creation
  attempt, in order.
\<close>

function makeVeth_loop ::
  "(nat \<Rightarrow> kernel) \<Rightarrow> (nat \<Rightarrow> ext_error + 8 word list) \<Rightarrow> string \<Rightarrow> string \<Rightarrow> int \<Rightarrow> string
     \<Rightarrow> int \<Rightarrow> nat \<Rightarrow> string \<Rightarrow> string list
     \<Rightarrow> (string \<times> Link option \<times> error option) \<times> string list" where
  "makeVeth_loop K R name vethPeerName mtu mac hostNS i peerName tried =
     (if i < 10 then
        (let (peerName, err) =
               (if vethPeerName \<noteq> '''' then (vethPeerName, None) else RandomVethName (R i))
         in case err of
              Some e \<Rightarrow> ((peerName, None, Some e), tried)
            | None \<Rightarrow>
                (case makeVethPair (K i) name peerName mtu mac hostNS of
                   Inr veth \<Rightarrow> ((peerName, Some veth, None), tried @ [peerName])
                 | Inl err \<Rightarrow>
                     if IsExist err then
                       (if peerExists (K i) peerName \<and> vethPeerName = ''''
                        then makeVeth_loop K R name vethPeerName mtu mac hostNS (i + 1)
                               peerName (tried @ [peerName])
                        else ((peerName, None, Some (PeerAlreadyExists name peerName)),
                              tried @ [peerName]))
                     else ((peerName, None, Some (FailedToMakeVethPair err)),
                           tried @ [peerName])))
      else ((peerName, None, Some NoUniqueVethName), tried))"
  by pat_completeness auto
termination
  by (relation "measure (\<lambda>(K, R, name, vethPeerName, mtu, mac, hostNS, i, peerName, tried). 10 - i)")
     auto

definition makeVeth ::
  "(nat \<Rightarrow> kernel) \<Rightarrow> (nat \<Rightarrow> ext_error + 8 word list) \<Rightarrow> string \<Rightarrow> string \<Rightarrow> int \<Rightarrow> string
     \<Rightarrow> int \<Rightarrow> (string \<times> Link option \<times> error option) \<times> string list" where
  "makeVeth K R name vethPeerName mtu mac hostNS =
     makeVeth_loop K R name vethPeerName mtu mac hostNS 0 '''' []"

text \<open>\<open>DelLinkByName\<close>: \<open>None\<close> is the nil error.\<close>

definition DelLinkByName :: "kernel \<Rightarrow> string \<Rightarrow> error option" where
  "DelLinkByName k ifName =
     (case LinkByName k ifName of
        Inl err \<Rightarrow>
          (if err = LinkNotFoundError then Some ErrLinkNotFound
           else Some (FailedToLookup ifName err))
      | Inr iface \<Rightarrow>
          (case LinkDel k iface of
             Some err \<Rightarrow> Some (FailedToDelete ifName err)
           | None \<Rightarrow> None))"

text \<open>\<open>DelLinkByNameAddr\<close> returns \<^verbatim>\<open>(nil, err)\<close> or \<^verbatim>\<open>(out, nil)\<close>: a sum.\<close>

definition DelLinkByNameAddr :: "kernel \<Rightarrow> string \<Rightarrow> error + string list" where
  "DelLinkByNameAddr k ifName =
     (case LinkByName k ifName of
        Inl err \<Rightarrow>
          (if err = LinkNotFoundError then Inl ErrLinkNotFound
           else Inl (FailedToLookup ifName err))
      | Inr iface \<Rightarrow>
          (case AddrList k iface of
             Inl err \<Rightarrow> Inl (FailedToGetAddresses ifName err)
           | Inr addrs \<Rightarrow>
               (case LinkDel k iface of
                  Some err \<Rightarrow> Inl (FailedToDelete ifName err)
                | None \<Rightarrow> Inr (map IPNet (filter (\<lambda>addr. IsGlobalUnicast k (IP addr)) addrs)))))"

text \<open>
  \<open>GetVethPeerIfindex\<close> returns the triple \<^verbatim>\<open>(link, peerIndex, err)\<close> as the source does:
  \<^verbatim>\<open>(nil, -1, err)\<close> on every error.  \<open>ParentIndex\<close> is a Go \<^verbatim>\<open>int\<close>; \<open>n\<close> is the
  \<^verbatim>\<open>uint64\<close> read from the statistics and \<open>uint n\<close> is \<^verbatim>\<open>int(n)\<close>, exact below \<open>2^63\<close>.
\<close>

definition GetVethPeerIfindex :: "kernel \<Rightarrow> string \<Rightarrow> Link option \<times> int \<times> error option" where
  "GetVethPeerIfindex k ifName =
     (case LinkByName k ifName of
        Inl err \<Rightarrow> (None, -1, Some (CouldNotLookUp ifName err))
      | Inr link \<Rightarrow>
          if LinkType link \<noteq> VethLink then (None, -1, Some (NotAVeth ifName))
          else
            (let peerIndex = ParentIndex (Attrs link) in
             if peerIndex \<le> 0 then
               (case NewEthtool k of
                  Some err \<Rightarrow> (None, -1, Some (EthtoolInitFailed err))
                | None \<Rightarrow>
                    (case Stats k (LinkAttrs.Name (Attrs link)) of
                       Inl err \<Rightarrow> (None, -1, Some (EthtoolStatsFailed err))
                     | Inr stats \<Rightarrow>
                         (case stats ''peer_ifindex'' of
                            None \<Rightarrow> (None, -1, Some PeerIfindexMissing)
                          | Some n \<Rightarrow>
                              if n > 32767 \<or> n = 0
                              then (None, -1, Some (PeerIfindexInvalid n))
                              else (Some link, uint n, None))))
             else (Some link, peerIndex, None)))"

section \<open>plugins/meta/bandwidth: configuration\<close>

record BandwidthEntry =
  IngressRate :: "64 word"
  IngressBurst :: "64 word"
  EgressRate :: "64 word"
  EgressBurst :: "64 word"

definition isZero :: "BandwidthEntry \<Rightarrow> bool" where
  "isZero bw \<longleftrightarrow>
     IngressBurst bw = 0 \<and> IngressRate bw = 0 \<and> EgressBurst bw = 0 \<and> EgressRate bw = 0"

record Interface =
  Name :: string
  Mac :: string
  Sandbox :: string

text \<open>
  A CNI result; only its interface list is read or written here.  The list holds
  pointers (\<^verbatim>\<open>[]*current.Interface\<close>): a nil entry is \<open>None\<close>.
\<close>

record Result =
  Interfaces :: "Interface option list"

text \<open>
  \<open>PluginConf\<close>: the fields of the embedded \<^verbatim>\<open>types.NetConf\<close> that are used, the
  runtime-config entry and the embedded \<^verbatim>\<open>*BandwidthEntry\<close>.  A Go pointer or
  interface that may be nil is an \<open>option\<close>.
\<close>

record PluginConf =
  CNIVersion :: string
  Name :: string
  RawPrevResult :: "string option"
  PrevResult :: "Result option"
  RuntimeConfig_Bandwidth :: "BandwidthEntry option"
  BandwidthEntry :: "BandwidthEntry option"

definition getBandwidth :: "PluginConf \<Rightarrow> BandwidthEntry option" where
  "getBandwidth conf =
     (if BandwidthEntry conf = None \<and> RuntimeConfig_Bandwidth conf \<noteq> None
      then RuntimeConfig_Bandwidth conf
      else BandwidthEntry conf)"

text \<open>\<^verbatim>\<open>math.MaxUint32\<close> is \<open>2^32 - 1 = 4294967295\<close>; \<open>div\<close> on words is Go's \<^verbatim>\<open>/\<close> on uint64.\<close>

definition MaxUint32 :: "64 word" where
  "MaxUint32 = 4294967295"

definition validateRateAndBurst :: "64 word \<Rightarrow> 64 word \<Rightarrow> error option" where
  "validateRateAndBurst rate burst =
     (if burst = 0 \<and> rate \<noteq> 0 then Some RateWithoutBurst
      else if rate = 0 \<and> burst \<noteq> 0 then Some BurstWithoutRate
      else if burst div 8 \<ge> MaxUint32 then Some BurstTooLarge
      else None)"

definition maxIfbDeviceLength :: nat where
  "maxIfbDeviceLength = 15"

definition ifbDevicePrefix :: string where
  "ifbDevicePrefix = ''bwp''"

text \<open>
  \<^verbatim>\<open>utils.MustFormatHashWithPrefix\<close> is not among the sources; \<open>getIfbDeviceName\<close> takes
  it as the parameter \<open>fmtHash\<close> and calls it as the source does, on the two
  constants and the concatenation \<^verbatim>\<open>networkName+containerID\<close>.
\<close>

definition getIfbDeviceName ::
  "(nat \<Rightarrow> string \<Rightarrow> string \<Rightarrow> string) \<Rightarrow> string \<Rightarrow> string \<Rightarrow> string" where
  "getIfbDeviceName fmtHash networkName containerID =
     fmtHash maxIfbDeviceLength ifbDevicePrefix (networkName @ containerID)"

text \<open>
  Modelled from the spec: \<^verbatim>\<open>utils.MustFormatHashWithPrefix\<close> (pkg/utils, missing from
  the sources).  The spec calls the name ``a deterministic, length-bounded hash of
  (network name, container ID)'', ``truncated to a fixed maximum length with a fixed
  prefix'': the prefix followed by the digest of the hashed string, cut to the given
  length.  The digest \<open>H\<close> (its hexadecimal text) is a parameter.
\<close>

definition MustFormatHashWithPrefix ::
  "(string \<Rightarrow> string) \<Rightarrow> nat \<Rightarrow> string \<Rightarrow> string \<Rightarrow> string" where
  "MustFormatHashWithPrefix H len prefix toHash = take len (prefix @ H toHash)"

section \<open>plugins/meta/bandwidth: the commands\<close>

record CmdArgs =
  ContainerID :: string
  Netns :: string
  IfName :: string
  StdinData :: string

text \<open>
  What the plugin is given from outside.  The decoder and the CNI library:
  \<^verbatim>\<open>json.Unmarshal\<close> into a fresh \<open>PluginConf\<close>, \<^verbatim>\<open>version.ParsePrevResult\<close> (on success
  it stores the decoded result in \<open>PrevResult\<close>), \<^verbatim>\<open>current.NewResultFromResult\<close>.
  Namespaces: \<^verbatim>\<open>ns.GetNS\<close> gives a handle or an error; \<open>netns_Do h\<close> is \<open>Some k\<close> when
  \<^verbatim>\<open>netns.Do\<close> enters the namespace and runs its callback against the answers \<open>k\<close>, and
  \<open>None\<close> when it does not run it; \<open>host\<close> holds the answers in the plugin's own
  namespace.  The functions of ifb_creator.go and \<^verbatim>\<open>utils.MustFormatHashWithPrefix\<close> are
  not among the sources and are parameters here; \<open>'f\<close> stands for \<^verbatim>\<open>float64\<close>.
\<close>

record 'f env =
  json_Unmarshal :: "string \<Rightarrow> ext_error + PluginConf"
  ParsePrevResult :: "PluginConf \<Rightarrow> ext_error + Result"
  NewResultFromResult :: "Result \<Rightarrow> ext_error + Result"
  GetNS :: "string \<Rightarrow> ext_error + string"
  netns_Do :: "string \<Rightarrow> kernel option"
  host :: kernel
  fmtHash :: "nat \<Rightarrow> string \<Rightarrow> string \<Rightarrow> string"
  buffer :: "64 word \<Rightarrow> 32 word \<Rightarrow> 32 word"
  limit :: "64 word \<Rightarrow> 'f \<Rightarrow> 32 word \<Rightarrow> 32 word"
  latencyInUsec :: "'f \<Rightarrow> 'f"
  latencyInMillis :: 'f
  CreateIngressQdisc :: "64 word \<Rightarrow> 64 word \<Rightarrow> string \<Rightarrow> error option"
  CreateIfb :: "string \<Rightarrow> int \<Rightarrow> error option"
  CreateEgressQdisc :: "64 word \<Rightarrow> 64 word \<Rightarrow> string \<Rightarrow> string \<Rightarrow> error option"
  TeardownIfb :: "string \<Rightarrow> error option"

definition parseConfig :: "'f env \<Rightarrow> string \<Rightarrow> error + PluginConf" where
  "parseConfig env stdin =
     (case json_Unmarshal env stdin of
        Inl err \<Rightarrow> Inl (ParseConfigFailed err)
      | Inr conf \<Rightarrow>
          (case (case getBandwidth conf of
                   None \<Rightarrow> None
                 | Some bandwidth \<Rightarrow>
                     (case validateRateAndBurst (IngressRate bandwidth) (IngressBurst bandwidth) of
                        Some err \<Rightarrow> Some err
                      | None \<Rightarrow>
                          validateRateAndBurst (EgressRate bandwidth) (EgressBurst bandwidth))) of
             Some err \<Rightarrow> Inl err
           | None \<Rightarrow>
               if RawPrevResult conf \<noteq> None then
                 (case ParsePrevResult env conf of
                    Inl err \<Rightarrow> Inl (PrevResultParseFailed err)
                  | Inr prev \<Rightarrow>
                      (case NewResultFromResult env prev of
                         Inl err \<Rightarrow> Inl (PrevResultConvertFailed err)
                       | Inr r \<Rightarrow> Inr (conf\<lparr>RawPrevResult := None, PrevResult := Some prev\<rparr>)))
               else Inr conf))"

definition getMTU :: "'f env \<Rightarrow> string \<Rightarrow> int \<times> ext_error option" where
  "getMTU env deviceName =
     (case LinkByName (host env) deviceName of
        Inl err \<Rightarrow> (-1, Some err)
      | Inr link \<Rightarrow> (MTU (Attrs link), None))"

text \<open>
  The search loop of \<open>getHostInterface\<close> (its lines 154-158) returns the first interface
  without sandbox whose name is the link's; reading \<^verbatim>\<open>iface.Sandbox\<close> of a nil entry aborts
  the process; when the list is exhausted the error after the loop is returned.
\<close>

fun getHostInterface_loop :: "Interface option list \<Rightarrow> string \<Rightarrow> Interface result" where
  "getHostInterface_loop [] linkName = Err NoHostPeerFound"
| "getHostInterface_loop (None # interfaces) linkName = Panic"
| "getHostInterface_loop (Some iface # interfaces) linkName =
     (if Sandbox iface = '''' \<and> Interface.Name iface = linkName then Ok iface
      else getHostInterface_loop interfaces linkName)"

text \<open>
  \<open>getHostInterface\<close>.  The callback of \<^verbatim>\<open>netns.Do\<close> assigns \<open>peerIndex\<close> and \<open>err\<close>; when
  it is not run they keep their zero values.
\<close>

definition getHostInterface ::
  "'f env \<Rightarrow> Interface option list \<Rightarrow> string \<Rightarrow> string \<Rightarrow> Interface result" where
  "getHostInterface env interfaces containerIfName netns =
     (if length interfaces = 0 then Err NoInterfacesProvided
      else
        (let (peerIndex, err) =
               (case netns_Do env netns of
                  None \<Rightarrow> (0, None)
                | Some k \<Rightarrow> snd (GetVethPeerIfindex k containerIfName))
         in if peerIndex \<le> 0 then Err (NoVethPeer containerIfName err)
            else
              (case LinkByIndex (host env) peerIndex of
                 Inl e \<Rightarrow> Err (PeerNotInHostNS peerIndex)
               | Inr link \<Rightarrow> getHostInterface_loop interfaces (LinkAttrs.Name (Attrs link)))))"

text \<open>The two shaping steps of \<open>cmdAdd\<close> (its lines 194-199 and 201-227).\<close>

definition cmdAdd_ingress :: "'f env \<Rightarrow> BandwidthEntry \<Rightarrow> Interface \<Rightarrow> error option" where
  "cmdAdd_ingress env bandwidth hostInterface =
     (if IngressRate bandwidth > 0 \<and> IngressBurst bandwidth > 0
      then CreateIngressQdisc env (IngressRate bandwidth) (IngressBurst bandwidth)
             (Interface.Name hostInterface)
      else None)"

definition cmdAdd_egress ::
  "'f env \<Rightarrow> PluginConf \<Rightarrow> CmdArgs \<Rightarrow> BandwidthEntry \<Rightarrow> Interface \<Rightarrow> Result \<Rightarrow> error + Result" where
  "cmdAdd_egress env conf args bandwidth hostInterface result =
     (if EgressRate bandwidth > 0 \<and> EgressBurst bandwidth > 0 then
        (case getMTU env (Interface.Name hostInterface) of
           (mtu, Some err) \<Rightarrow> Inl (External err)
         | (mtu, None) \<Rightarrow>
             (let ifbDeviceName =
                    getIfbDeviceName (fmtHash env) (PluginConf.Name conf) (ContainerID args)
              in case CreateIfb env ifbDeviceName mtu of
                   Some err \<Rightarrow> Inl err
                 | None \<Rightarrow>
                     (case LinkByName (host env) ifbDeviceName of
                        Inl err \<Rightarrow> Inl (External err)
                      | Inr ifbDevice \<Rightarrow>
                          (let result = result\<lparr>Interfaces := Interfaces result @
                                 [Some \<lparr>Interface.Name = ifbDeviceName,
                                   Mac = HardwareAddr (Attrs ifbDevice), Sandbox = ''''\<rparr>]\<rparr>
                           in case CreateEgressQdisc env (EgressRate bandwidth)
                                     (EgressBurst bandwidth) (Interface.Name hostInterface)
                                     ifbDeviceName of
                                Some err \<Rightarrow> Inl err
                              | None \<Rightarrow> Inr result))))
      else Inr result)"

text \<open>
  \<open>cmdAdd\<close> ends in \<^verbatim>\<open>return types.PrintResult(r, v)\<close>: \<open>Ok (r, v)\<close> is that call, with the
  result it is given to print and the version.  The early return (line 171) hands it
  \<^verbatim>\<open>conf.PrevResult\<close> untested: \<^verbatim>\<open>types.PrintResult\<close> calls a method of that interface value,
  so a nil previous result aborts the process.
\<close>

definition PrintResult :: "Result option \<Rightarrow> string \<Rightarrow> (Result option \<times> string) result" where
  "PrintResult r v = (case r of None \<Rightarrow> Panic | Some prev \<Rightarrow> Ok (Some prev, v))"

definition cmdAdd :: "'f env \<Rightarrow> CmdArgs \<Rightarrow> (Result option \<times> string) result" where
  "cmdAdd env args =
     (case parseConfig env (StdinData args) of
        Inl err \<Rightarrow> Err err
      | Inr conf \<Rightarrow>
          (case getBandwidth conf of
             None \<Rightarrow> PrintResult (PrevResult conf) (CNIVersion conf)
           | Some bandwidth \<Rightarrow>
               if isZero bandwidth then PrintResult (PrevResult conf) (CNIVersion conf)
               else
                 (case PrevResult conf of
                    None \<Rightarrow> Err NotChained
                  | Some prev \<Rightarrow>
                      (case NewResultFromResult env prev of
                         Inl err \<Rightarrow> Err (PrevResultConvertFailed err)
                       | Inr result \<Rightarrow>
                           (case GetNS env (Netns args) of
                              Inl err \<Rightarrow> Err (OpenNetnsFailed err)
                            | Inr netns \<Rightarrow>
                                (case getHostInterface env (Interfaces result) (IfName args) netns of
                                   Err err \<Rightarrow> Err err
                                 | Panic \<Rightarrow> Panic
                                 | Ok hostInterface \<Rightarrow>
                                     (case cmdAdd_ingress env bandwidth hostInterface of
                                        Some err \<Rightarrow> Err err
                                      | None \<Rightarrow>
                                          (case cmdAdd_egress env conf args bandwidth
                                                  hostInterface result of
                                             Inl err \<Rightarrow> Err err
                                           | Inr result \<Rightarrow>
                                               PrintResult (Some result)
                                                 (CNIVersion conf)))))))))"

definition cmdDel :: "'f env \<Rightarrow> CmdArgs \<Rightarrow> unit result" where
  "cmdDel env args =
     (case parseConfig env (StdinData args) of
        Inl err \<Rightarrow> Err err
      | Inr conf \<Rightarrow>
          (let ifbDeviceName =
                 getIfbDeviceName (fmtHash env) (PluginConf.Name conf) (ContainerID args)
           in case TeardownIfb env ifbDeviceName of
                Some err \<Rightarrow> Err err
              | None \<Rightarrow> Ok ()))"

definition SafeQdiscList :: "'f env \<Rightarrow> Link \<Rightarrow> ext_error + Qdisc list" where
  "SafeQdiscList env link =
     (case QdiscList (host env) link of
        Inl err \<Rightarrow> Inl err
      | Inr qdiscs \<Rightarrow> Inr (filter (\<lambda>qdisc. qdisc \<noteq> PfifoFastQ) qdiscs))"

text \<open>
  The loop over the listed disciplines, the same text for both directions of
  \<open>cmdCheck\<close> (its lines 317-331 and 356-370): a discipline that is not a token bucket
  ends the loop (\<^verbatim>\<open>break\<close>), a token bucket that differs returns the error.
\<close>

fun cmdCheck_loop :: "Qdisc list \<Rightarrow> 64 word \<Rightarrow> 32 word \<Rightarrow> 32 word \<Rightarrow> error option" where
  "cmdCheck_loop [] rateInBytes limitInBytes bufferInBytes = None"
| "cmdCheck_loop (TbfQ tbf # qdiscs) rateInBytes limitInBytes bufferInBytes =
     (if Rate tbf \<noteq> rateInBytes then Some RateMismatch
      else if Limit tbf \<noteq> limitInBytes then Some LimitMismatch
      else if Buffer tbf \<noteq> bufferInBytes then Some BufferMismatch
      else cmdCheck_loop qdiscs rateInBytes limitInBytes bufferInBytes)"
| "cmdCheck_loop (qdisc # qdiscs) rateInBytes limitInBytes bufferInBytes = None"

text \<open>
  The verification of one direction on one link, also the same text twice in
  \<open>cmdCheck\<close> (lines 303-331 and 335-339, 348-370): the recomputed values, the listing,
  the emptiness test and the loop.  \<open>ucast\<close> is \<^verbatim>\<open>uint32(burstInBytes)\<close>.
\<close>

definition cmdCheck_verify :: "'f env \<Rightarrow> Link \<Rightarrow> 64 word \<Rightarrow> 64 word \<Rightarrow> error option" where
  "cmdCheck_verify env link rate burst =
     (let rateInBytes = rate div 8;
          burstInBytes = burst div 8;
          bufferInBytes = buffer env rateInBytes (ucast burstInBytes);
          latency = latencyInUsec env (latencyInMillis env);
          limitInBytes = limit env rateInBytes latency (ucast burstInBytes)
      in case SafeQdiscList env link of
           Inl err \<Rightarrow> Some (External err)
         | Inr qdiscs \<Rightarrow>
             if length qdiscs = 0 then Some QdiscNotFound
             else cmdCheck_loop qdiscs rateInBytes limitInBytes bufferInBytes)"

definition cmdCheck_ingress :: "'f env \<Rightarrow> Link \<Rightarrow> BandwidthEntry \<Rightarrow> error option" where
  "cmdCheck_ingress env link bandwidth =
     (if IngressRate bandwidth > 0 \<and> IngressBurst bandwidth > 0
      then cmdCheck_verify env link (IngressRate bandwidth) (IngressBurst bandwidth)
      else None)"

definition cmdCheck_egress ::
  "'f env \<Rightarrow> PluginConf \<Rightarrow> CmdArgs \<Rightarrow> BandwidthEntry \<Rightarrow> error option" where
  "cmdCheck_egress env bwConf args bandwidth =
     (if EgressRate bandwidth > 0 \<and> EgressBurst bandwidth > 0 then
        (let ifbDeviceName =
               getIfbDeviceName (fmtHash env) (PluginConf.Name bwConf) (ContainerID args)
         in case LinkByName (host env) ifbDeviceName of
              Inl err \<Rightarrow> Some (GetIfbDeviceFailed err)
            | Inr ifbDevice \<Rightarrow>
                cmdCheck_verify env ifbDevice (EgressRate bandwidth) (EgressBurst bandwidth))
      else None)"

text \<open>
  \<open>cmdCheck\<close>.  \<open>getBandwidth\<close> returns a pointer that the source reads without a nil
  test (\<^verbatim>\<open>bandwidth.IngressRate\<close>, line 302): on nil the Go runtime panics.  A panic of
  \<open>getHostInterface\<close> is the command's.
\<close>

definition cmdCheck :: "'f env \<Rightarrow> CmdArgs \<Rightarrow> unit result" where
  "cmdCheck env args =
     (case parseConfig env (StdinData args) of
        Inl err \<Rightarrow> Err err
      | Inr bwConf \<Rightarrow>
          (case PrevResult bwConf of
             None \<Rightarrow> Err NotChained
           | Some prev \<Rightarrow>
               (case NewResultFromResult env prev of
                  Inl err \<Rightarrow> Err (PrevResultConvertFailed err)
                | Inr result \<Rightarrow>
                    (case GetNS env (Netns args) of
                       Inl err \<Rightarrow> Err (OpenNetnsFailed err)
                     | Inr netns \<Rightarrow>
                         (case getHostInterface env (Interfaces result) (IfName args) netns of
                            Err err \<Rightarrow> Err err
                          | Panic \<Rightarrow> Panic
                          | Ok hostInterface \<Rightarrow>
                              (case LinkByName (host env) (Interface.Name hostInterface) of
                                 Inl err \<Rightarrow> Err (External err)
                               | Inr link \<Rightarrow>
                                   (case getBandwidth bwConf of
                                      None \<Rightarrow> Panic
                                    | Some bandwidth \<Rightarrow>
                                        (case cmdCheck_ingress env link bandwidth of
                                           Some err \<Rightarrow> Err err
                                         | None \<Rightarrow>
                                             (case cmdCheck_egress env bwConf args bandwidth of
                                                Some err \<Rightarrow> Err err
                                              | None \<Rightarrow> Ok ())))))))))"

text \<open>
  Modelled from the spec: \<^verbatim>\<open>TeardownIfb\<close> (ifb_creator.go, missing from the sources).
  The spec: ``Teardown: deleting the auxiliary device by its deterministic name is
  sufficient'', and for Del ``deletion of an already-absent device is treated as success'';
  NotFound is ``treated as success for delete operations''.  So: delete the link by
  name, and turn the NotFound sentinel into success.
\<close>

definition TeardownIfb_spec :: "kernel \<Rightarrow> string \<Rightarrow> error option" where
  "TeardownIfb_spec k deviceName =
     (case DelLinkByName k deviceName of
        Some err \<Rightarrow> (if err = ErrLinkNotFound then None else Some err)
      | None \<Rightarrow> None)"

section \<open>Predicates used in the statements\<close>

text \<open>
  \<open>generated R i\<close> is the name \<open>RandomVethName\<close> yields in iteration \<open>i\<close>.  Iteration
  \<open>i\<close> \<open>collides\<close> when a name is generated, creating the pair fails with an error that
  \<^verbatim>\<open>os.IsExist\<close> accepts, and a link with the generated name exists.
\<close>

definition generated :: "(nat \<Rightarrow> ext_error + 8 word list) \<Rightarrow> nat \<Rightarrow> string" where
  "generated R i = fst (RandomVethName (R i))"

definition collides ::
  "(nat \<Rightarrow> kernel) \<Rightarrow> (nat \<Rightarrow> ext_error + 8 word list) \<Rightarrow> string \<Rightarrow> int \<Rightarrow> string \<Rightarrow> int
     \<Rightarrow> nat \<Rightarrow> bool" where
  "collides K R name mtu mac hostNS i =
     (case RandomVethName (R i) of
        (peerName, Some e) \<Rightarrow> False
      | (peerName, None) \<Rightarrow>
          (case makeVethPair (K i) name peerName mtu mac hostNS of
             Inr veth \<Rightarrow> False
           | Inl err \<Rightarrow> IsExist err \<and> peerExists (K i) peerName))"




section \<open>Example inputs\<close>

text \<open>
  A namespace without links, a veth link, and a plugin invocation: network \<open>net1\<close>,
  container \<open>cid1\<close>, a previous result with the host-side \<open>veth123\<close> (index 7) and the
  container's \<open>eth0\<close> (index 2, peer index 7).  The listed disciplines of every link and
  the top-level bandwidth entry are left open.  The functions of ifb_creator.go are
  stood in for by simple ones on \<open>nat\<close>.
\<close>

definition kernel0 :: kernel where
  "kernel0 =
     \<lparr>LinkByName = (\<lambda>name. Inl LinkNotFoundError),
      LinkByIndex = (\<lambda>index. Inl LinkNotFoundError),
      LinkAdd = (\<lambda>veth. None),
      LinkDel = (\<lambda>link. None),
      AddrList = (\<lambda>link. Inr []),
      QdiscList = (\<lambda>link. Inr []),
      ParseMAC = (\<lambda>mac. Inr mac),
      IsGlobalUnicast = (\<lambda>ip. True),
      NewEthtool = None,
      Stats = (\<lambda>name. Inr (\<lambda>counter. None))\<rparr>"

definition veth_link :: "string \<Rightarrow> int \<Rightarrow> int \<Rightarrow> Link" where
  "veth_link name index parent =
     \<lparr>LinkType = VethLink,
      Attrs = \<lparr>Index = index, MTU = 1500, LinkAttrs.Name = name,
               HardwareAddr = ''0a:58:0a:00:00:02'', ParentIndex = parent\<rparr>\<rparr>"

definition example_prev :: Result where
  "example_prev =
     \<lparr>Interfaces =
        [Some \<lparr>Interface.Name = ''veth123'', Mac = ''0a:58:0a:00:00:01'', Sandbox = ''''\<rparr>,
         Some \<lparr>Interface.Name = ''eth0'', Mac = ''0a:58:0a:00:00:02'',
               Sandbox = ''/var/run/netns/c1''\<rparr>]\<rparr>"

definition example_conf :: "BandwidthEntry option \<Rightarrow> PluginConf" where
  "example_conf bandwidth =
     \<lparr>CNIVersion = ''1.0.0'', PluginConf.Name = ''net1'', RawPrevResult = Some ''prev'',
      PrevResult = None, RuntimeConfig_Bandwidth = None, BandwidthEntry = bandwidth\<rparr>"

definition ifb_link :: Link where
  "ifb_link =
     \<lparr>LinkType = OtherLink ''ifb'',
      Attrs = \<lparr>Index = 9, MTU = 1500, LinkAttrs.Name = ''bwp0123456789ab'',
               HardwareAddr = ''0a:58:0a:00:00:09'', ParentIndex = 0\<rparr>\<rparr>"

definition example_host :: "Qdisc list \<Rightarrow> kernel" where
  "example_host qdiscs =
     kernel0\<lparr>LinkByName := (\<lambda>name.
                 if name = ''veth123'' then Inr (veth_link ''veth123'' 7 2)
                 else if name = ''bwp0123456789ab'' then Inr ifb_link
                 else Inl LinkNotFoundError),
               LinkByIndex := (\<lambda>index.
                 if index = 7 then Inr (veth_link ''veth123'' 7 2)
                 else if index = 9 then Inr ifb_link
                 else Inl LinkNotFoundError),
               QdiscList := (\<lambda>link. Inr qdiscs)\<rparr>"

definition example_env :: "Qdisc list \<Rightarrow> BandwidthEntry option \<Rightarrow> nat env" where
  "example_env qdiscs bandwidth =
     \<lparr>json_Unmarshal = (\<lambda>stdin. Inr (example_conf bandwidth)),
      ParsePrevResult = (\<lambda>conf. Inr example_prev),
      NewResultFromResult = (\<lambda>prev. Inr prev),
      GetNS = (\<lambda>path. Inr path),
      netns_Do = (\<lambda>netns.
        Some (kernel0\<lparr>LinkByName := (\<lambda>name.
          if name = ''eth0'' then Inr (veth_link ''eth0'' 2 7) else Inl LinkNotFoundError)\<rparr>)),
      host = example_host qdiscs,
      fmtHash = MustFormatHashWithPrefix (\<lambda>toHash. ''0123456789abcdef''),
      buffer = (\<lambda>rate burst. burst),
      limit = (\<lambda>rate latency buffer. of_nat (unat rate * latency div 1000000) + buffer),
      latencyInUsec = (\<lambda>millis. millis * 1000),
      latencyInMillis = 25,
      CreateIngressQdisc = (\<lambda>rate burst name. None),
      CreateIfb = (\<lambda>name mtu. None),
      CreateEgressQdisc = (\<lambda>rate burst name ifb. None),
      TeardownIfb = TeardownIfb_spec (example_host qdiscs)\<rparr>"

definition example_args :: CmdArgs where
  "example_args =
     \<lparr>ContainerID = ''cid1'', Netns = ''/var/run/netns/c1'', IfName = ''eth0'',
      StdinData = ''{}''\<rparr>"

definition ingress_only :: BandwidthEntry where
  "ingress_only =
     \<lparr>IngressRate = 1000000, IngressBurst = 1000000, EgressRate = 0, EgressBurst = 0\<rparr>"

definition egress_only :: BandwidthEntry where
  "egress_only =
     \<lparr>IngressRate = 0, IngressBurst = 0, EgressRate = 1000000, EgressBurst = 1000000\<rparr>"

definition rate_only :: BandwidthEntry where
  "rate_only = \<lparr>IngressRate = 1000, IngressBurst = 0, EgressRate = 0, EgressBurst = 0\<rparr>"

definition zero_entry :: BandwidthEntry where
  "zero_entry = \<lparr>IngressRate = 0, IngressBurst = 0, EgressRate = 0, EgressBurst = 0\<rparr>"

text \<open>
  The example invocation with a configuration that carries no previous result, with one
  whose previous result does not parse, and on a host where the auxiliary device does
  not exist.
\<close>

definition standalone_env :: "nat env" where
  "standalone_env =
     (example_env [] None)
       \<lparr>json_Unmarshal := (\<lambda>stdin. Inr ((example_conf None)\<lparr>RawPrevResult := None\<rparr>))\<rparr>"

definition bad_prev_env :: "nat env" where
  "bad_prev_env =
     (example_env [] None)
       \<lparr>ParsePrevResult := (\<lambda>conf. Inl (Errno ''unexpected end of JSON input''))\<rparr>"

definition no_ifb_env :: "BandwidthEntry option \<Rightarrow> nat env" where
  "no_ifb_env bandwidth =
     (example_env [] bandwidth)\<lparr>host := kernel0, TeardownIfb := TeardownIfb_spec kernel0\<rparr>"

text \<open>
  For rate and burst 1000000 the example's stand-ins give rate 125000, buffer 125000 and
  limit 128125: \<open>good_tbf\<close> has them, \<open>slow_tbf\<close> has another rate.
\<close>

definition good_tbf :: Tbf where
  "good_tbf = \<lparr>Rate = 125000, Limit = 128125, Buffer = 125000\<rparr>"


text \<open>
  Kernels for the veth examples: one where every name is taken and creation fails with
  \<open>EEXIST\<close>, one where creation succeeds, one where creation fails with \<open>EEXIST\<close>
  although no link has the peer's name; and an entropy source whose \<open>i\<close>-th answer is
  the bytes 0, 0, 0, \<open>i\<close>.
\<close>

definition kernel_busy :: kernel where
  "kernel_busy =
     kernel0\<lparr>LinkByName := (\<lambda>name. Inr (veth_link name 5 0)),
             LinkAdd := (\<lambda>veth. Some EEXIST)\<rparr>"

definition kernel_free :: kernel where
  "kernel_free = kernel0\<lparr>LinkByName := (\<lambda>name. Inr (veth_link name 2 7))\<rparr>"

definition kernel_name_taken :: kernel where
  "kernel_name_taken = kernel0\<lparr>LinkAdd := (\<lambda>veth. Some EEXIST)\<rparr>"

definition entropy :: "nat \<Rightarrow> ext_error + 8 word list" where
  "entropy i = Inr [0, 0, 0, of_nat i]"

text \<open>
  The answers given inside a container namespace while the host namespace holds the links
  \<open>host_links\<close>: creating a veth pair whose peer name is taken in the host namespace,
  where the peer is created, fails with \<open>EEXIST\<close>; a lookup, made in the container
  namespace, finds only the container's own link \<open>name\<close>.
\<close>

definition container_view :: "string list \<Rightarrow> string \<Rightarrow> kernel" where
  "container_view host_links name =
     kernel0\<lparr>LinkByName := (\<lambda>n. if n = name then Inr (veth_link name 2 7)
                                else Inl LinkNotFoundError),
             LinkAdd := (\<lambda>veth. if PeerName veth \<in> set host_links then Some EEXIST
                                 else None)\<rparr>"

declare makeVeth_loop.simps [simp del]

section \<open>Properties\<close>

text \<open>
  C2 (as amended).  \<open>validateRateAndBurst\<close> succeeds exactly when rate and burst are
  both zero, or both nonzero with \<open>burst/8 < 2^32 - 1\<close> (the code compares with
  \<^verbatim>\<open>>= math.MaxUint32\<close>); and \<open>validate(0,0)\<close> succeeds, \<open>validate(1000,0)\<close>,
  \<open>validate(0,500)\<close> and \<open>validate(100, 8*2^32)\<close> fail.
\<close>

theorem validateRateAndBurst_iff:
  "(validateRateAndBurst rate burst = None \<longleftrightarrow>
      (rate = 0 \<and> burst = 0) \<or> (rate \<noteq> 0 \<and> burst \<noteq> 0 \<and> unat burst div 8 < 2 ^ 32 - 1))
   \<and> validateRateAndBurst 0 0 = None
   \<and> validateRateAndBurst 1000 0 = Some RateWithoutBurst
   \<and> validateRateAndBurst 0 500 = Some BurstWithoutRate
   \<and> validateRateAndBurst 100 (8 * 2 ^ 32) = Some BurstTooLarge"
proof -
  have d: "unat (burst div 8) = unat burst div 8"
    by (simp add: unat_div)
  have "burst div 8 \<ge> MaxUint32 \<longleftrightarrow> \<not> unat burst div 8 < 2 ^ 32 - 1"
    by (simp add: MaxUint32_def word_le_nat_alt d not_less)
  then have "validateRateAndBurst rate burst = None \<longleftrightarrow>
      (rate = 0 \<and> burst = 0) \<or> (rate \<noteq> 0 \<and> burst \<noteq> 0 \<and> unat burst div 8 < 2 ^ 32 - 1)"
    by (auto simp: validateRateAndBurst_def)
  moreover have "validateRateAndBurst 0 0 = None"
    by (simp add: validateRateAndBurst_def MaxUint32_def)
  moreover have "validateRateAndBurst 1000 0 = Some RateWithoutBurst"
    by (simp add: validateRateAndBurst_def)
  moreover have "validateRateAndBurst 0 500 = Some BurstWithoutRate"
    by (simp add: validateRateAndBurst_def)
  moreover have "validateRateAndBurst 100 (8 * 2 ^ 32) = Some BurstTooLarge"
    by (simp add: validateRateAndBurst_def MaxUint32_def)
  ultimately show ?thesis by blast
qed

theorem validateRateAndBurst_iff_witness:
  "validateRateAndBurst 8000 16000 = None
   \<and> (8000 :: 64 word) \<noteq> 0 \<and> (16000 :: 64 word) \<noteq> 0
   \<and> unat (16000 :: 64 word) div 8 < 2 ^ 32 - 1"
  using validateRateAndBurst_iff [of 8000 16000] by simp

text \<open>
  C2 (as stated) fails at the boundary: with \<open>burst = 8 * (2^32 - 1)\<close> both values are
  nonzero and \<open>burst/8 = 2^32 - 1 < 2^32\<close>, yet the validation fails.
\<close>

theorem validateRateAndBurst_boundary_counterexample:
  "validateRateAndBurst 100 34359738360 = Some BurstTooLarge
   \<and> (100 :: 64 word) \<noteq> 0 \<and> (34359738360 :: 64 word) \<noteq> 0
   \<and> unat (34359738360 :: 64 word) div 8 < 2 ^ 32"
  by (simp add: validateRateAndBurst_def MaxUint32_def)

subsection \<open>The example inputs evaluated\<close>

lemma example_parseConfig:
  assumes "case bw of None \<Rightarrow> True
           | Some b \<Rightarrow> validateRateAndBurst (IngressRate b) (IngressBurst b) = None
                      \<and> validateRateAndBurst (EgressRate b) (EgressBurst b) = None"
  shows "parseConfig (example_env qdiscs bw) stdin
     = Inr ((example_conf bw)\<lparr>RawPrevResult := None, PrevResult := Some example_prev\<rparr>)"
  using assms
  by (cases bw) (simp_all add: parseConfig_def example_env_def example_conf_def getBandwidth_def)

lemma example_getBandwidth:
  "getBandwidth ((example_conf bw)\<lparr>RawPrevResult := r, PrevResult := p\<rparr>) = bw"
  by (simp add: example_conf_def getBandwidth_def)

lemma example_getHostInterface:
  "getHostInterface (example_env qdiscs bw) (Interfaces example_prev) ''eth0'' ns
     = Ok \<lparr>Interface.Name = ''veth123'', Mac = ''0a:58:0a:00:00:01'', Sandbox = ''''\<rparr>"
  by (simp add: getHostInterface_def example_env_def example_host_def example_prev_def
      GetVethPeerIfindex_def kernel0_def veth_link_def)

lemma example_env_sel:
  "NewResultFromResult (example_env qdiscs bw) = Inr"
  "GetNS (example_env qdiscs bw) = Inr"
  "host (example_env qdiscs bw) = example_host qdiscs"
  "TeardownIfb (example_env qdiscs bw) = TeardownIfb_spec (example_host qdiscs)"
  "LinkByName (example_host qdiscs) ''veth123'' = Inr (veth_link ''veth123'' 7 2)"
  "LinkByName (example_host qdiscs) ''bwp0123456789ab'' = Inr ifb_link"
  "QdiscList (example_host qdiscs) = (\<lambda>link. Inr qdiscs)"
  "getIfbDeviceName (fmtHash (example_env qdiscs bw)) ''net1'' ''cid1'' = ''bwp0123456789ab''"
  "PluginConf.Name ((example_conf bw)\<lparr>RawPrevResult := r, PrevResult := p\<rparr>) = ''net1''"
  "CNIVersion ((example_conf bw)\<lparr>RawPrevResult := r, PrevResult := p\<rparr>) = ''1.0.0''"
  "PrevResult ((example_conf bw)\<lparr>RawPrevResult := r, PrevResult := p\<rparr>) = p"
  by (simp_all add: example_env_def example_host_def kernel0_def example_conf_def
      getIfbDeviceName_def MustFormatHashWithPrefix_def maxIfbDeviceLength_def
      ifbDevicePrefix_def)

lemma example_args_sel:
  "Netns example_args = ''/var/run/netns/c1''" "IfName example_args = ''eth0''"
  "ContainerID example_args = ''cid1''"
  by (simp_all add: example_args_def)

lemma example_entries_sel:
  "IngressRate ingress_only = 1000000" "IngressBurst ingress_only = 1000000"
  "EgressRate ingress_only = 0" "EgressBurst ingress_only = 0"
  "IngressRate egress_only = 0" "IngressBurst egress_only = 0"
  "EgressRate egress_only = 1000000" "EgressBurst egress_only = 1000000"
  by (simp_all add: ingress_only_def egress_only_def)

lemma example_entries_valid:
  "validateRateAndBurst 1000000 1000000 = None" "validateRateAndBurst 0 0 = None"
  by (simp_all add: validateRateAndBurst_def MaxUint32_def)

lemma makeVethPair_fixtures:
  "makeVethPair kernel_busy name peer mtu '''' ns = Inl EEXIST"
  "makeVethPair kernel_name_taken name peer mtu '''' ns = Inl EEXIST"
  "makeVethPair kernel_free name peer mtu '''' ns = Inr (veth_link name 2 7)"
  "peerExists kernel_busy peer" "\<not> peerExists kernel_name_taken peer"
  by (simp_all add: makeVethPair_def peerExists_def kernel_busy_def kernel_name_taken_def
      kernel_free_def kernel0_def)

lemma entropy_fixtures:
  "snd (RandomVethName (entropy i)) = None"
  "generated entropy 0 = ''veth00000000''" "generated entropy 1 = ''veth00000001''"
  "generated entropy 2 = ''veth00000002''" "generated entropy 3 = ''veth00000003''"
  "generated entropy 4 = ''veth00000004''" "generated entropy 5 = ''veth00000005''"
  "generated entropy 6 = ''veth00000006''" "generated entropy 7 = ''veth00000007''"
  "generated entropy 8 = ''veth00000008''" "generated entropy 9 = ''veth00000009''"
  "generated entropy (Suc 0) = ''veth00000001''"
  by (simp_all add: generated_def RandomVethName_def entropy_def hex_def hexdigit_def)

lemma collides_busy:
  "K i = kernel_busy \<Longrightarrow> collides K entropy name mtu '''' ns i"
  by (simp add: collides_def makeVethPair_fixtures IsExist_def RandomVethName_def entropy_def)

subsection \<open>Deleting links\<close>

text \<open>
  C9.  \<open>DelLinkByName\<close> and \<open>DelLinkByNameAddr\<close> return the sentinel
  \<open>ErrLinkNotFound\<close> exactly when the lookup answers with \<open>LinkNotFoundError\<close>, both
  in the same way; every other error of the lookup, of the address listing or of the
  deletion comes back wrapped with the operation and the interface name, never as the
  sentinel.
\<close>

theorem DelLink_NotFound:
  "(DelLinkByName k n = Some ErrLinkNotFound \<longleftrightarrow> LinkByName k n = Inl LinkNotFoundError)
   \<and> (DelLinkByNameAddr k n = Inl ErrLinkNotFound \<longleftrightarrow> LinkByName k n = Inl LinkNotFoundError)
   \<and> (\<forall>e. LinkByName k n = Inl e \<and> e \<noteq> LinkNotFoundError \<longrightarrow>
          DelLinkByName k n = Some (FailedToLookup n e)
          \<and> DelLinkByNameAddr k n = Inl (FailedToLookup n e))
   \<and> (\<forall>l e. LinkByName k n = Inr l \<and> LinkDel k l = Some e \<longrightarrow>
          DelLinkByName k n = Some (FailedToDelete n e))
   \<and> (\<forall>l e. LinkByName k n = Inr l \<and> AddrList k l = Inl e \<longrightarrow>
          DelLinkByNameAddr k n = Inl (FailedToGetAddresses n e))
   \<and> (\<forall>l as e. LinkByName k n = Inr l \<and> AddrList k l = Inr as \<and> LinkDel k l = Some e \<longrightarrow>
          DelLinkByNameAddr k n = Inl (FailedToDelete n e))"
  by (auto simp: DelLinkByName_def DelLinkByNameAddr_def split: sum.splits option.splits)

text \<open>
  C9, on examples: an absent link, a lookup that fails otherwise, a deletion and an
  address listing that fail.
\<close>

theorem DelLink_NotFound_witness:
  "DelLinkByName kernel0 ''veth0'' = Some ErrLinkNotFound
   \<and> DelLinkByNameAddr kernel0 ''veth0'' = Inl ErrLinkNotFound
   \<and> DelLinkByName (kernel0\<lparr>LinkByName := (\<lambda>name. Inl (Errno ''EPERM''))\<rparr>) ''veth0''
       = Some (FailedToLookup ''veth0'' (Errno ''EPERM''))
   \<and> DelLinkByNameAddr (kernel0\<lparr>LinkByName := (\<lambda>name. Inl (Errno ''EPERM''))\<rparr>) ''veth0''
       = Inl (FailedToLookup ''veth0'' (Errno ''EPERM''))
   \<and> DelLinkByName (kernel_free\<lparr>LinkDel := (\<lambda>link. Some (Errno ''EBUSY''))\<rparr>) ''veth0''
       = Some (FailedToDelete ''veth0'' (Errno ''EBUSY''))
   \<and> DelLinkByNameAddr (kernel_free\<lparr>AddrList := (\<lambda>link. Inl (Errno ''EINTR''))\<rparr>) ''veth0''
       = Inl (FailedToGetAddresses ''veth0'' (Errno ''EINTR''))
   \<and> DelLinkByNameAddr (kernel_free\<lparr>LinkDel := (\<lambda>link. Some LinkNotFoundError)\<rparr>) ''veth0''
       = Inl (FailedToDelete ''veth0'' LinkNotFoundError)"
proof -
  let ?P = "kernel0\<lparr>LinkByName := (\<lambda>name. Inl (Errno ''EPERM''))\<rparr>"
  let ?B = "kernel_free\<lparr>LinkDel := (\<lambda>link. Some (Errno ''EBUSY''))\<rparr>"
  let ?A = "kernel_free\<lparr>AddrList := (\<lambda>link. Inl (Errno ''EINTR''))\<rparr>"
  let ?D = "kernel_free\<lparr>LinkDel := (\<lambda>link. Some LinkNotFoundError)\<rparr>"
  have 1: "DelLinkByName kernel0 ''veth0'' = Some ErrLinkNotFound
      \<and> DelLinkByNameAddr kernel0 ''veth0'' = Inl ErrLinkNotFound"
    using DelLink_NotFound [of kernel0 "''veth0''"] by (simp add: kernel0_def)
  have 2: "DelLinkByName ?P ''veth0'' = Some (FailedToLookup ''veth0'' (Errno ''EPERM''))
      \<and> DelLinkByNameAddr ?P ''veth0'' = Inl (FailedToLookup ''veth0'' (Errno ''EPERM''))"
    using DelLink_NotFound [of ?P "''veth0''"] by simp
  have 3: "DelLinkByName ?B ''veth0'' = Some (FailedToDelete ''veth0'' (Errno ''EBUSY''))"
    using DelLink_NotFound [of ?B "''veth0''"] by (simp add: kernel_free_def)
  have 4: "DelLinkByNameAddr ?A ''veth0'' = Inl (FailedToGetAddresses ''veth0'' (Errno ''EINTR''))"
    using DelLink_NotFound [of ?A "''veth0''"] by (simp add: kernel_free_def)
  have 5: "DelLinkByNameAddr ?D ''veth0'' = Inl (FailedToDelete ''veth0'' LinkNotFoundError)"
    using DelLink_NotFound [of ?D "''veth0''"] by (simp add: kernel_free_def kernel0_def)
  from 1 2 3 4 5 show ?thesis by blast
qed

subsection \<open>The peer index of a veth\<close>

text \<open>
  C4 (as amended).  When \<open>GetVethPeerIfindex\<close> returns without error, the link is a veth
  and the returned index is at least 1: it is the kernel-reported parent index when that
  is positive (no upper bound is tested on it), and otherwise the \<open>peer_ifindex\<close>
  statistic, which is then in the range 1-32767.  A link that is not a veth is an error;
  in the fallback a missing statistic is an error, and a statistic that is 0 or above
  32767 is an error, and only such a one is reported invalid.
\<close>

theorem GetVethPeerIfindex_ok:
  "(\<forall>l idx. GetVethPeerIfindex k ifName = (l, idx, None) \<longrightarrow>
      (\<exists>link. LinkByName k ifName = Inr link \<and> l = Some link \<and> LinkType link = VethLink
         \<and> 1 \<le> idx
         \<and> (if 0 < ParentIndex (Attrs link) then idx = ParentIndex (Attrs link)
             else idx \<le> 32767 \<and>
               (\<exists>stats n. Stats k (LinkAttrs.Name (Attrs link)) = Inr stats
                  \<and> stats ''peer_ifindex'' = Some n \<and> idx = uint n))))
   \<and> (\<forall>link. LinkByName k ifName = Inr link \<and> LinkType link \<noteq> VethLink \<longrightarrow>
          GetVethPeerIfindex k ifName = (None, -1, Some (NotAVeth ifName)))
   \<and> (\<forall>link stats. LinkByName k ifName = Inr link \<and> LinkType link = VethLink
          \<and> ParentIndex (Attrs link) \<le> 0 \<and> NewEthtool k = None
          \<and> Stats k (LinkAttrs.Name (Attrs link)) = Inr stats \<longrightarrow>
          (case stats ''peer_ifindex'' of
             None \<Rightarrow> GetVethPeerIfindex k ifName = (None, -1, Some PeerIfindexMissing)
           | Some n \<Rightarrow>
               (n = 0 \<or> 32767 < n) = 
                 (GetVethPeerIfindex k ifName = (None, -1, Some (PeerIfindexInvalid n)))))"
proof (intro conjI allI impI)
  fix l idx
  assume a: "GetVethPeerIfindex k ifName = (l, idx, None)"
  then obtain link where lk: "LinkByName k ifName = Inr link"
    by (auto simp: GetVethPeerIfindex_def split: sum.splits)
  from a lk have v: "LinkType link = VethLink"
    by (auto simp: GetVethPeerIfindex_def split: if_splits)
  show "\<exists>link. LinkByName k ifName = Inr link \<and> l = Some link \<and> LinkType link = VethLink
         \<and> 1 \<le> idx
         \<and> (if 0 < ParentIndex (Attrs link) then idx = ParentIndex (Attrs link)
             else idx \<le> 32767 \<and>
               (\<exists>stats n. Stats k (LinkAttrs.Name (Attrs link)) = Inr stats
                  \<and> stats ''peer_ifindex'' = Some n \<and> idx = uint n))"
  proof (cases "0 < ParentIndex (Attrs link)")
    case True
    with a lk v show ?thesis
      by (auto simp: GetVethPeerIfindex_def Let_def)
  next
    case False
    with a lk v obtain stats n where
      s: "Stats k (LinkAttrs.Name (Attrs link)) = Inr stats" "stats ''peer_ifindex'' = Some n"
      and n: "\<not> (n > 32767 \<or> n = 0)" and r: "l = Some link" "idx = uint n"
      by (auto simp: GetVethPeerIfindex_def Let_def split: option.splits sum.splits if_splits)
    from n have "n \<le> 32767" "n \<noteq> 0" by (auto simp: not_less)
    then have "uint n \<le> 32767" "1 \<le> uint n"
      by (simp_all add: word_le_def  word_neq_0_conv word_less_def) 
    with False lk v s r show ?thesis by auto
  qed
next
  fix link assume "LinkByName k ifName = Inr link \<and> LinkType link \<noteq> VethLink"
  then show "GetVethPeerIfindex k ifName = (None, -1, Some (NotAVeth ifName))"
    by (simp add: GetVethPeerIfindex_def)
next
  fix link stats
  assume "LinkByName k ifName = Inr link \<and> LinkType link = VethLink
          \<and> ParentIndex (Attrs link) \<le> 0 \<and> NewEthtool k = None
          \<and> Stats k (LinkAttrs.Name (Attrs link)) = Inr stats"
  then show "case stats ''peer_ifindex'' of
             None \<Rightarrow> GetVethPeerIfindex k ifName = (None, -1, Some PeerIfindexMissing)
           | Some n \<Rightarrow>
               (n = 0 \<or> 32767 < n) = 
                 (GetVethPeerIfindex k ifName = (None, -1, Some (PeerIfindexInvalid n)))"
    by (auto simp: GetVethPeerIfindex_def Let_def split: option.splits)
qed

text \<open>
  C4 (as amended), on examples: a positive parent index, the fallback statistic 12, a
  link that is not a veth, a missing statistic and the statistic 40000.
\<close>

theorem GetVethPeerIfindex_ok_witness:
  "GetVethPeerIfindex (kernel0\<lparr>LinkByName := (\<lambda>name. Inr (veth_link ''eth0'' 2 7))\<rparr>) ''eth0''
     = (Some (veth_link ''eth0'' 2 7), 7, None)
   \<and> GetVethPeerIfindex
       (kernel0\<lparr>LinkByName := (\<lambda>name. Inr (veth_link ''eth0'' 2 0)),
                Stats := (\<lambda>name. Inr [''peer_ifindex'' \<mapsto> 12])\<rparr>) ''eth0''
     = (Some (veth_link ''eth0'' 2 0), 12, None)
   \<and> GetVethPeerIfindex (kernel0\<lparr>LinkByName := (\<lambda>name. Inr ifb_link)\<rparr>) ''bwp0123456789ab''
     = (None, -1, Some (NotAVeth ''bwp0123456789ab''))
   \<and> GetVethPeerIfindex (kernel0\<lparr>LinkByName := (\<lambda>name. Inr (veth_link ''eth0'' 2 0))\<rparr>) ''eth0''
     = (None, -1, Some PeerIfindexMissing)
   \<and> GetVethPeerIfindex
       (kernel0\<lparr>LinkByName := (\<lambda>name. Inr (veth_link ''eth0'' 2 0)),
                Stats := (\<lambda>name. Inr [''peer_ifindex'' \<mapsto> 40000])\<rparr>) ''eth0''
     = (None, -1, Some (PeerIfindexInvalid 40000))"
proof -
  let ?K1 = "kernel0\<lparr>LinkByName := (\<lambda>name. Inr (veth_link ''eth0'' 2 7))\<rparr>"
  let ?K2 = "kernel0\<lparr>LinkByName := (\<lambda>name. Inr (veth_link ''eth0'' 2 0)),
                Stats := (\<lambda>name. Inr [''peer_ifindex'' \<mapsto> 12])\<rparr>"
  let ?K3 = "kernel0\<lparr>LinkByName := (\<lambda>name. Inr ifb_link)\<rparr>"
  let ?K4 = "kernel0\<lparr>LinkByName := (\<lambda>name. Inr (veth_link ''eth0'' 2 0))\<rparr>"
  let ?K5 = "kernel0\<lparr>LinkByName := (\<lambda>name. Inr (veth_link ''eth0'' 2 0)),
                Stats := (\<lambda>name. Inr [''peer_ifindex'' \<mapsto> 40000])\<rparr>"
  obtain l idx e where r: "GetVethPeerIfindex ?K1 ''eth0'' = (l, idx, e)"
    by (cases "GetVethPeerIfindex ?K1 ''eth0''") auto
  then have e: "e = None"
    by (simp add: GetVethPeerIfindex_def veth_link_def)
  with r GetVethPeerIfindex_ok [of ?K1 "''eth0''", THEN conjunct1]
  have 1: "GetVethPeerIfindex ?K1 ''eth0'' = (Some (veth_link ''eth0'' 2 7), 7, None)"
    by (auto simp: veth_link_def)
  obtain l2 idx2 e2 where r2: "GetVethPeerIfindex ?K2 ''eth0'' = (l2, idx2, e2)"
    by (cases "GetVethPeerIfindex ?K2 ''eth0''") auto
  then have e2: "e2 = None"
    by (simp add: GetVethPeerIfindex_def veth_link_def kernel0_def)
  with r2 GetVethPeerIfindex_ok [of ?K2 "''eth0''", THEN conjunct1]
  have 2: "GetVethPeerIfindex ?K2 ''eth0'' = (Some (veth_link ''eth0'' 2 0), 12, None)"
    by (auto simp: veth_link_def)
  have 3: "GetVethPeerIfindex ?K3 ''bwp0123456789ab''
      = (None, -1, Some (NotAVeth ''bwp0123456789ab''))"
    using GetVethPeerIfindex_ok [of ?K3 "''bwp0123456789ab''"] by (simp add: ifb_link_def)
  have 4: "GetVethPeerIfindex ?K4 ''eth0'' = (None, -1, Some PeerIfindexMissing)"
    using GetVethPeerIfindex_ok [of ?K4 "''eth0''"] by (simp add: veth_link_def kernel0_def)
  have 5: "GetVethPeerIfindex ?K5 ''eth0'' = (None, -1, Some (PeerIfindexInvalid 40000))"
    using GetVethPeerIfindex_ok [of ?K5 "''eth0''"] by (simp add: veth_link_def kernel0_def)
  from 1 2 3 4 5 show ?thesis by blast
qed

text \<open>
  C4 (as stated) fails for a veth whose kernel-reported parent index is 40000: the call
  returns it without error, above 32767.
\<close>

theorem GetVethPeerIfindex_large_parent_counterexample:
  "GetVethPeerIfindex
     (kernel0\<lparr>LinkByName := (\<lambda>name. Inr (veth_link ''eth0'' 2 40000))\<rparr>) ''eth0''
     = (Some (veth_link ''eth0'' 2 40000), 40000, None)
   \<and> \<not> (40000 :: int) \<le> 32767"
  by (simp add: GetVethPeerIfindex_def kernel0_def veth_link_def)

subsection \<open>The name of the auxiliary device\<close>

text \<open>
  C8.  With the formatting helper as the spec describes it, \<open>getIfbDeviceName\<close> yields
  for every network name and container ID a name of at most 15 characters that begins
  with \<open>bwp\<close>; equal inputs give equal names (it is a function of its two arguments,
  for any digest \<open>H\<close>).
\<close>

theorem getIfbDeviceName_bounded:
  "length (getIfbDeviceName (MustFormatHashWithPrefix H) networkName containerID) \<le> 15
   \<and> take 3 (getIfbDeviceName (MustFormatHashWithPrefix H) networkName containerID) = ''bwp''
   \<and> (networkName = networkName' \<and> containerID = containerID' \<longrightarrow>
        getIfbDeviceName (MustFormatHashWithPrefix H) networkName containerID =
        getIfbDeviceName (MustFormatHashWithPrefix H) networkName' containerID')"
  by (simp add: getIfbDeviceName_def MustFormatHashWithPrefix_def maxIfbDeviceLength_def
      ifbDevicePrefix_def)

text \<open>
  C8, on the example's network and container.
\<close>

theorem getIfbDeviceName_bounded_witness:
  "getIfbDeviceName (MustFormatHashWithPrefix (\<lambda>toHash. ''0123456789abcdef'')) ''net1'' ''cid1''
     = ''bwp0123456789ab''
   \<and> length ''bwp0123456789ab'' \<le> 15 \<and> take 3 ''bwp0123456789ab'' = ''bwp''"
  using getIfbDeviceName_bounded
    [of "\<lambda>toHash. ''0123456789abcdef''" "''net1''" "''cid1''" "''net1''" "''cid1''"]
  by (simp add: getIfbDeviceName_def MustFormatHashWithPrefix_def maxIfbDeviceLength_def
      ifbDevicePrefix_def)

text \<open>
  C10.  Whatever the formatting helper is, \<open>getIfbDeviceName\<close> passes it only the
  concatenation of network name and container ID: two pairs with the same concatenation
  get the same device name.
\<close>

theorem getIfbDeviceName_concat:
  "networkName @ containerID = networkName' @ containerID' \<Longrightarrow>
     getIfbDeviceName F networkName containerID =
     getIfbDeviceName F networkName' containerID'"
  by (simp add: getIfbDeviceName_def)

text \<open>
  C10, on an example: \<open>(net1, 2cid)\<close> and \<open>(net12, cid)\<close> are different pairs with one
  device name.
\<close>

theorem getIfbDeviceName_concat_witness:
  "\<forall>F. getIfbDeviceName F ''net1'' ''2cid'' = getIfbDeviceName F ''net12'' ''cid''"
  using getIfbDeviceName_concat [of "''net1''" "''2cid''" "''net12''" "''cid''"] by simp

subsection \<open>Add without a bandwidth entry\<close>

lemma parseConfig_decoded:
  assumes "json_Unmarshal env stdin = Inr conf0"
    and "getBandwidth conf0 = None \<or> (\<exists>bw. getBandwidth conf0 = Some bw \<and> isZero bw)"
    and "RawPrevResult conf0 \<noteq> None" and "ParsePrevResult env conf0 = Inr prev"
    and "NewResultFromResult env prev = Inr r"
  shows "parseConfig env stdin = Inr (conf0\<lparr>RawPrevResult := None, PrevResult := Some prev\<rparr>)"
  using assms
  by (auto simp: parseConfig_def isZero_def validateRateAndBurst_def MaxUint32_def)

lemma getBandwidth_parsed:
  "getBandwidth (conf\<lparr>RawPrevResult := r, PrevResult := p\<rparr>) = getBandwidth conf"
  by (simp add: getBandwidth_def)

text \<open>
  C6 (as amended).  When the configuration parses with a previous result and its effective
  bandwidth entry is absent or has all four fields zero, \<open>cmdAdd\<close> ends by printing
  exactly that previous result, under the configuration's version: nothing is appended to
  its interfaces and nothing in it is changed.  From the decoded configuration: the
  result printed is the one \<^verbatim>\<open>version.ParsePrevResult\<close> made of its \<open>prevResult\<close>.  When
  the configuration does not parse, \<open>cmdAdd\<close> returns the parse error.
\<close>

theorem cmdAdd_unconfigured:
  "(\<forall>conf prev. parseConfig env (StdinData args) = Inr conf \<and> PrevResult conf = Some prev
        \<and> (getBandwidth conf = None \<or> (\<exists>bw. getBandwidth conf = Some bw \<and> isZero bw)) \<longrightarrow>
      cmdAdd env args = Ok (Some prev, CNIVersion conf))
   \<and> (\<forall>conf0 prev r. json_Unmarshal env (StdinData args) = Inr conf0
        \<and> (getBandwidth conf0 = None \<or> (\<exists>bw. getBandwidth conf0 = Some bw \<and> isZero bw))
        \<and> RawPrevResult conf0 \<noteq> None \<and> ParsePrevResult env conf0 = Inr prev
        \<and> NewResultFromResult env prev = Inr r \<longrightarrow>
      cmdAdd env args = Ok (Some prev, CNIVersion conf0))
   \<and> (\<forall>err. parseConfig env (StdinData args) = Inl err \<longrightarrow> cmdAdd env args = Err err)"
proof (intro conjI allI impI)
  fix conf prev
  assume "parseConfig env (StdinData args) = Inr conf \<and> PrevResult conf = Some prev
        \<and> (getBandwidth conf = None \<or> (\<exists>bw. getBandwidth conf = Some bw \<and> isZero bw))"
  then show "cmdAdd env args = Ok (Some prev, CNIVersion conf)"
    by (auto simp: cmdAdd_def PrintResult_def)
next
  fix conf0 prev r
  assume a: "json_Unmarshal env (StdinData args) = Inr conf0
        \<and> (getBandwidth conf0 = None \<or> (\<exists>bw. getBandwidth conf0 = Some bw \<and> isZero bw))
        \<and> RawPrevResult conf0 \<noteq> None \<and> ParsePrevResult env conf0 = Inr prev
        \<and> NewResultFromResult env prev = Inr r"
  then have "parseConfig env (StdinData args)
      = Inr (conf0\<lparr>RawPrevResult := None, PrevResult := Some prev\<rparr>)"
    by (intro parseConfig_decoded) auto
  with a show "cmdAdd env args = Ok (Some prev, CNIVersion conf0)"
    by (auto simp: cmdAdd_def PrintResult_def getBandwidth_parsed)
next
  fix err
  assume "parseConfig env (StdinData args) = Inl err"
  then show "cmdAdd env args = Err err"
    by (simp add: cmdAdd_def)
qed

text \<open>
  C6 (as amended), on the example: without a bandwidth entry, and with an all-zero one,
  Add prints the previous result as it is; with a previous result that does not parse it
  returns the error.
\<close>

theorem cmdAdd_unconfigured_witness:
  "cmdAdd (example_env [] None) example_args = Ok (Some example_prev, ''1.0.0'')
   \<and> cmdAdd (example_env [] (Some zero_entry)) example_args = Ok (Some example_prev, ''1.0.0'')
   \<and> isZero zero_entry
   \<and> cmdAdd bad_prev_env example_args
       = Err (PrevResultParseFailed (Errno ''unexpected end of JSON input''))"
proof -
  have z: "isZero zero_entry" by (simp add: isZero_def zero_entry_def)
  have p1: "parseConfig (example_env [] None) (StdinData example_args)
     = Inr ((example_conf None)\<lparr>RawPrevResult := None, PrevResult := Some example_prev\<rparr>)"
    by (simp add: example_parseConfig)
  have 1: "cmdAdd (example_env [] None) example_args = Ok (Some example_prev, ''1.0.0'')"
    using cmdAdd_unconfigured [of "example_env [] None" example_args, THEN conjunct1,
        THEN spec, THEN spec,
        of "(example_conf None)\<lparr>RawPrevResult := None, PrevResult := Some example_prev\<rparr>"
          example_prev] p1
    by (simp add: example_getBandwidth example_env_sel)
  have u: "json_Unmarshal (example_env [] (Some zero_entry)) (StdinData example_args)
      = Inr (example_conf (Some zero_entry))"
    "ParsePrevResult (example_env [] (Some zero_entry)) (example_conf (Some zero_entry))
      = Inr example_prev"
    "RawPrevResult (example_conf (Some zero_entry)) \<noteq> None"
    "getBandwidth (example_conf (Some zero_entry)) = Some zero_entry"
    "CNIVersion (example_conf (Some zero_entry)) = ''1.0.0''"
    by (simp_all add: example_env_def example_conf_def getBandwidth_def)
  have 2: "cmdAdd (example_env [] (Some zero_entry)) example_args
      = Ok (Some example_prev, ''1.0.0'')"
    using cmdAdd_unconfigured [of "example_env [] (Some zero_entry)" example_args,
        THEN conjunct2, THEN conjunct1, THEN spec, THEN spec, THEN spec,
        of "example_conf (Some zero_entry)" example_prev example_prev] z
    by (simp add: u example_env_sel)
  have p3: "parseConfig bad_prev_env (StdinData example_args)
      = Inl (PrevResultParseFailed (Errno ''unexpected end of JSON input''))"
    by (simp add: parseConfig_def bad_prev_env_def example_env_def example_conf_def
        getBandwidth_def)
  have 3: "cmdAdd bad_prev_env example_args
       = Err (PrevResultParseFailed (Errno ''unexpected end of JSON input''))"
    using cmdAdd_unconfigured [of bad_prev_env example_args, THEN conjunct2, THEN conjunct2]
      p3
    by simp
  from 1 2 3 z show ?thesis by simp
qed

text \<open>
  C6 (as stated) fails.  The example invocation with a configuration that has no bandwidth
  entry and no previous result: \<open>cmdAdd\<close> hands the nil previous result to
  \<^verbatim>\<open>types.PrintResult\<close> and the process aborts, so nothing is returned.  And with a previous
  result that does not parse, \<open>cmdAdd\<close> returns the parse error and no result.
\<close>

theorem cmdAdd_without_prevResult_counterexample:
  "json_Unmarshal standalone_env (StdinData example_args)
     = Inr ((example_conf None)\<lparr>RawPrevResult := None\<rparr>)
   \<and> getBandwidth ((example_conf None)\<lparr>RawPrevResult := None\<rparr>) = None
   \<and> PrevResult ((example_conf None)\<lparr>RawPrevResult := None\<rparr>) = None
   \<and> cmdAdd standalone_env example_args = Panic
   \<and> getBandwidth (example_conf None) = None
   \<and> cmdAdd bad_prev_env example_args
       = Err (PrevResultParseFailed (Errno ''unexpected end of JSON input''))"
  by (simp add: cmdAdd_def PrintResult_def parseConfig_def standalone_env_def bad_prev_env_def
      example_env_def example_conf_def getBandwidth_def)

subsection \<open>Creating a veth pair with retries\<close>

lemma makeVeth_loop_collide:
  assumes "i < 10" and "collides K R name mtu mac hostNS i"
  shows "makeVeth_loop K R name '''' mtu mac hostNS i p tried =
         makeVeth_loop K R name '''' mtu mac hostNS (Suc i) (generated R i)
           (tried @ [generated R i])"
  using assms
  by (subst makeVeth_loop.simps)
     (auto simp: collides_def generated_def split: prod.splits option.splits sum.splits)

lemma makeVeth_loop_collisions:
  assumes "i \<le> N" and "N \<le> 10" and "\<forall>j. i \<le> j \<and> j < N \<longrightarrow> collides K R name mtu mac hostNS j"
  shows "makeVeth_loop K R name '''' mtu mac hostNS i p tried =
         makeVeth_loop K R name '''' mtu mac hostNS N
           (if i = N then p else generated R (N - 1)) (tried @ map (generated R) [i..<N])"
  using assms
proof (induction N rule: dec_induct)
  case base
  show ?case by simp
next
  case (step n)
  have "makeVeth_loop K R name '''' mtu mac hostNS i p tried =
        makeVeth_loop K R name '''' mtu mac hostNS n
          (if i = n then p else generated R (n - 1)) (tried @ map (generated R) [i..<n])"
    using step by simp
  also have "\<dots> = makeVeth_loop K R name '''' mtu mac hostNS (Suc n) (generated R n)
          ((tried @ map (generated R) [i..<n]) @ [generated R n])"
    using step by (intro makeVeth_loop_collide) auto
  finally show ?case using step by simp
qed

lemma makeVeth_loop_success:
  assumes "i < 10" and "snd (RandomVethName (R i)) = None"
    and "makeVethPair (K i) name (generated R i) mtu mac hostNS = Inr link"
  shows "makeVeth_loop K R name '''' mtu mac hostNS i p tried =
         ((generated R i, Some link, None), tried @ [generated R i])"
  using assms
  by (subst makeVeth_loop.simps) (auto simp: generated_def split: prod.splits)

lemma makeVeth_loop_foreign:
  assumes "i < 10" and "snd (RandomVethName (R i)) = None"
    and "makeVethPair (K i) name (generated R i) mtu mac hostNS = Inl e" and "IsExist e"
    and "\<not> peerExists (K i) (generated R i)"
  shows "makeVeth_loop K R name '''' mtu mac hostNS i p tried =
         ((generated R i, None, Some (PeerAlreadyExists name (generated R i))),
          tried @ [generated R i])"
  using assms
  by (subst makeVeth_loop.simps) (auto simp: generated_def split: prod.splits)

lemma makeVeth_loop_hint:
  assumes "vethPeerName \<noteq> ''''"
    and "makeVethPair (K 0) name vethPeerName mtu mac hostNS = Inl e" and "IsExist e"
  shows "makeVeth_loop K R name vethPeerName mtu mac hostNS 0 p tried =
         ((vethPeerName, None, Some (PeerAlreadyExists name vethPeerName)),
          tried @ [vethPeerName])"
  using assms
  by (subst makeVeth_loop.simps) auto

lemma makeVeth_loop_exhausted:
  "makeVeth_loop K R name vethPeerName mtu mac hostNS 10 p tried =
     ((p, None, Some NoUniqueVethName), tried)"
  by (subst makeVeth_loop.simps) simp

text \<open>
  The loop in terms of its own test (\<open>collides\<close>: the creation fails with a duplicate name
  and a lookup in the calling namespace finds the generated name).  With an empty
  peer-name hint: if the first \<open>N < 10\<close> iterations pass the test and iteration \<open>N\<close>
  generates a name for which the pair is created, \<open>makeVeth\<close> succeeds with that name after
  exactly \<open>N + 1\<close> creation attempts; if all ten iterations pass it, \<open>makeVeth\<close> makes
  exactly 10 attempts and fails with \<open>NoUniqueVethName\<close>, which is not the collision
  error.  A duplicate-name failure with an explicit hint fails at once, after one
  attempt, with the collision error \<open>PeerAlreadyExists\<close>; so does, in the iteration where
  it happens, a duplicate-name failure when the lookup in the calling namespace does not
  find the generated name.
\<close>

lemma makeVeth_retries:
  "(\<forall>N link. N < 10 \<and> (\<forall>i<N. collides K R name mtu mac hostNS i)
        \<and> snd (RandomVethName (R N)) = None
        \<and> makeVethPair (K N) name (generated R N) mtu mac hostNS = Inr link \<longrightarrow>
      makeVeth K R name '''' mtu mac hostNS =
        ((generated R N, Some link, None), map (generated R) [0..<N + 1])
      \<and> length (snd (makeVeth K R name '''' mtu mac hostNS)) = N + 1)
   \<and> ((\<forall>i<10. collides K R name mtu mac hostNS i) \<longrightarrow>
      makeVeth K R name '''' mtu mac hostNS =
        ((generated R 9, None, Some NoUniqueVethName), map (generated R) [0..<10])
      \<and> length (snd (makeVeth K R name '''' mtu mac hostNS)) = 10)
   \<and> (\<forall>a b. NoUniqueVethName \<noteq> PeerAlreadyExists a b)
   \<and> (\<forall>e. vethPeerName \<noteq> ''''
        \<and> makeVethPair (K 0) name vethPeerName mtu mac hostNS = Inl e \<and> IsExist e \<longrightarrow>
      makeVeth K R name vethPeerName mtu mac hostNS =
        ((vethPeerName, None, Some (PeerAlreadyExists name vethPeerName)), [vethPeerName]))
   \<and> (\<forall>N e. N < 10 \<and> (\<forall>i<N. collides K R name mtu mac hostNS i)
        \<and> snd (RandomVethName (R N)) = None
        \<and> makeVethPair (K N) name (generated R N) mtu mac hostNS = Inl e \<and> IsExist e
        \<and> \<not> peerExists (K N) (generated R N) \<longrightarrow>
      makeVeth K R name '''' mtu mac hostNS =
        ((generated R N, None, Some (PeerAlreadyExists name (generated R N))),
         map (generated R) [0..<N + 1]))"
proof (intro conjI allI impI)
  fix N link
  assume a: "N < 10 \<and> (\<forall>i<N. collides K R name mtu mac hostNS i)
        \<and> snd (RandomVethName (R N)) = None
        \<and> makeVethPair (K N) name (generated R N) mtu mac hostNS = Inr link"
  then have "makeVeth K R name '''' mtu mac hostNS =
      makeVeth_loop K R name '''' mtu mac hostNS N
        (if 0 = N then '''' else generated R (N - 1)) ([] @ map (generated R) [0..<N])"
    unfolding makeVeth_def by (intro makeVeth_loop_collisions) auto
  also have "\<dots> = ((generated R N, Some link, None),
       ([] @ map (generated R) [0..<N]) @ [generated R N])"
    using a by (intro makeVeth_loop_success) auto
  finally show r: "makeVeth K R name '''' mtu mac hostNS =
        ((generated R N, Some link, None), map (generated R) [0..<N + 1])"
    by simp
  show "length (snd (makeVeth K R name '''' mtu mac hostNS)) = N + 1"
    by (simp add: r)
next
  assume a: "\<forall>i<10. collides K R name mtu mac hostNS i"
  then have "makeVeth K R name '''' mtu mac hostNS =
      makeVeth_loop K R name '''' mtu mac hostNS 10
        (if (0::nat) = 10 then '''' else generated R (10 - 1)) ([] @ map (generated R) [0..<10])"
    unfolding makeVeth_def by (intro makeVeth_loop_collisions) auto
  then show r: "makeVeth K R name '''' mtu mac hostNS =
        ((generated R 9, None, Some NoUniqueVethName), map (generated R) [0..<10])"
    by (simp add: makeVeth_loop_exhausted)
  show "length (snd (makeVeth K R name '''' mtu mac hostNS)) = 10"
    by (simp add: r)
next
  fix a b show "NoUniqueVethName \<noteq> PeerAlreadyExists a b" by simp
next
  fix e
  assume "vethPeerName \<noteq> ''''
        \<and> makeVethPair (K 0) name vethPeerName mtu mac hostNS = Inl e \<and> IsExist e"
  then show "makeVeth K R name vethPeerName mtu mac hostNS =
        ((vethPeerName, None, Some (PeerAlreadyExists name vethPeerName)), [vethPeerName])"
    unfolding makeVeth_def by (simp add: makeVeth_loop_hint)
next
  fix N e
  assume a: "N < 10 \<and> (\<forall>i<N. collides K R name mtu mac hostNS i)
        \<and> snd (RandomVethName (R N)) = None
        \<and> makeVethPair (K N) name (generated R N) mtu mac hostNS = Inl e \<and> IsExist e
        \<and> \<not> peerExists (K N) (generated R N)"
  then have "makeVeth K R name '''' mtu mac hostNS =
      makeVeth_loop K R name '''' mtu mac hostNS N
        (if 0 = N then '''' else generated R (N - 1)) ([] @ map (generated R) [0..<N])"
    unfolding makeVeth_def by (intro makeVeth_loop_collisions) auto
  also have "\<dots> = ((generated R N, None, Some (PeerAlreadyExists name (generated R N))),
       ([] @ map (generated R) [0..<N]) @ [generated R N])"
    using a by (intro makeVeth_loop_foreign) auto
  finally show "makeVeth K R name '''' mtu mac hostNS =
        ((generated R N, None, Some (PeerAlreadyExists name (generated R N))),
         map (generated R) [0..<N + 1])"
    by simp
qed

text \<open>
  On examples: three such collisions and then a free name (four attempts); ten of them;
  a collision on the hint \<open>vethhost\<close>; and, after one collision, a duplicate-name failure
  where the lookup does not find the generated name.
\<close>

lemma makeVeth_retries_examples:
  "makeVeth (\<lambda>i. if i < 3 then kernel_busy else kernel_free) entropy ''eth0'' '''' 1500 '''' 3
     = ((''veth00000003'', Some (veth_link ''eth0'' 2 7), None),
        [''veth00000000'', ''veth00000001'', ''veth00000002'', ''veth00000003''])
   \<and> makeVeth (\<lambda>i. kernel_busy) entropy ''eth0'' '''' 1500 '''' 3
     = ((''veth00000009'', None, Some NoUniqueVethName),
        [''veth00000000'', ''veth00000001'', ''veth00000002'', ''veth00000003'',
         ''veth00000004'', ''veth00000005'', ''veth00000006'', ''veth00000007'',
         ''veth00000008'', ''veth00000009''])
   \<and> makeVeth (\<lambda>i. kernel_busy) entropy ''eth0'' ''vethhost'' 1500 '''' 3
     = ((''vethhost'', None, Some (PeerAlreadyExists ''eth0'' ''vethhost'')), [''vethhost''])
   \<and> makeVeth (\<lambda>i. if i < 1 then kernel_busy else kernel_name_taken) entropy ''eth0'' ''''
        1500 '''' 3
     = ((''veth00000001'', None, Some (PeerAlreadyExists ''eth0'' ''veth00000001'')),
        [''veth00000000'', ''veth00000001''])"
proof -
  let ?K1 = "\<lambda>i::nat. if i < 3 then kernel_busy else kernel_free"
  let ?K2 = "\<lambda>i::nat. kernel_busy"
  let ?K4 = "\<lambda>i::nat. if i < 1 then kernel_busy else kernel_name_taken"
  have u3: "[0..<4] = [0, 1, 2, 3]" and u1: "[0..<2] = [0, 1]"
    and u10: "[0..<10] = [0, 1, 2, 3, 4, 5, 6, 7, 8, 9]"
    by (simp_all add: upt_rec)
  have c1: "\<forall>i<3. collides ?K1 entropy ''eth0'' 1500 '''' 3 i"
    by (simp add: collides_busy)
  have 1: "makeVeth ?K1 entropy ''eth0'' '''' 1500 '''' 3
     = ((''veth00000003'', Some (veth_link ''eth0'' 2 7), None),
        [''veth00000000'', ''veth00000001'', ''veth00000002'', ''veth00000003''])"
    using makeVeth_retries [of ?K1 entropy "''eth0''" 1500 "''''" 3, THEN conjunct1,
        THEN spec, THEN spec, of 3 "veth_link ''eth0'' 2 7"] c1
    by (simp add: makeVethPair_fixtures entropy_fixtures u3)
  have c2: "\<forall>i<10. collides ?K2 entropy ''eth0'' 1500 '''' 3 i"
    by (simp add: collides_busy)
  have 2: "makeVeth ?K2 entropy ''eth0'' '''' 1500 '''' 3
     = ((''veth00000009'', None, Some NoUniqueVethName),
        [''veth00000000'', ''veth00000001'', ''veth00000002'', ''veth00000003'',
         ''veth00000004'', ''veth00000005'', ''veth00000006'', ''veth00000007'',
         ''veth00000008'', ''veth00000009''])"
    using makeVeth_retries [of ?K2 entropy "''eth0''" 1500 "''''" 3, THEN conjunct2,
        THEN conjunct1] c2
    by (simp add: entropy_fixtures u10)
  have 3: "makeVeth ?K2 entropy ''eth0'' ''vethhost'' 1500 '''' 3
     = ((''vethhost'', None, Some (PeerAlreadyExists ''eth0'' ''vethhost'')), [''vethhost''])"
    using makeVeth_retries [of ?K2 entropy "''eth0''" 1500 "''''" 3 "''vethhost''",
        THEN conjunct2, THEN conjunct2, THEN conjunct2, THEN conjunct1, THEN spec, of EEXIST]
    by (simp add: makeVethPair_fixtures IsExist_def)
  have c4: "\<forall>i<1. collides ?K4 entropy ''eth0'' 1500 '''' 3 i"
    by (simp add: collides_busy)
  have 4: "makeVeth ?K4 entropy ''eth0'' '''' 1500 '''' 3
     = ((''veth00000001'', None, Some (PeerAlreadyExists ''eth0'' ''veth00000001'')),
        [''veth00000000'', ''veth00000001''])"
    using makeVeth_retries [of ?K4 entropy "''eth0''" 1500 "''''" 3, THEN conjunct2,
        THEN conjunct2, THEN conjunct2, THEN conjunct2, THEN spec, THEN spec, of 1 EEXIST] c4
    by (simp add: makeVethPair_fixtures entropy_fixtures IsExist_def u1)
  from 1 2 3 4 show ?thesis by blast
qed

text \<open>
  C5 fails on the code.  \<open>makeVeth\<close> runs in the container's namespace and creates the
  peer in the host namespace (\<^verbatim>\<open>PeerNamespace\<close>), where a generated name can be taken;
  \<open>peerExists\<close> looks the name up in the namespace it runs in.  Here the first generated
  name, \<open>veth00000000\<close>, exists in the host namespace and the second is free: the
  creation fails with \<open>EEXIST\<close>, the lookup does not find the name, and \<open>makeVeth\<close>
  returns the collision error after one attempt, where the claim has it retry and succeed
  with \<open>veth00000001\<close> after two.
\<close>

theorem makeVeth_host_collision_fails:
  "generated entropy 0 = ''veth00000000''
   \<and> LinkAdd (container_view [''veth00000000''] ''eth0'')
        \<lparr>VethName = ''eth0'', VethMTU = 1500, VethHardwareAddr = None,
         PeerName = ''veth00000000'', PeerNamespace = 3\<rparr> = Some EEXIST
   \<and> peerExists (container_view [''veth00000000''] ''eth0'') ''veth00000000'' = False
   \<and> generated entropy 1 = ''veth00000001''
   \<and> makeVethPair (container_view [''veth00000000''] ''eth0'') ''eth0'' ''veth00000001''
        1500 '''' 3 = Inr (veth_link ''eth0'' 2 7)
   \<and> makeVeth (\<lambda>i. container_view [''veth00000000''] ''eth0'') entropy ''eth0'' '''' 1500 '''' 3
       = ((''veth00000000'', None, Some (PeerAlreadyExists ''eth0'' ''veth00000000'')),
          [''veth00000000''])"
proof -
  have m: "makeVethPair (container_view [''veth00000000''] ''eth0'') ''eth0'' ''veth00000000''
        1500 '''' 3 = Inl EEXIST"
    by (simp add: makeVethPair_def container_view_def kernel0_def)
  have p: "peerExists (container_view [''veth00000000''] ''eth0'') ''veth00000000'' = False"
    by (simp add: peerExists_def container_view_def kernel0_def)
  have r: "RandomVethName (entropy 0) = (''veth00000000'', None)"
    using entropy_fixtures(1) [of 0] entropy_fixtures(2)
    by (simp add: generated_def prod_eq_iff)
  have "makeVeth (\<lambda>i. container_view [''veth00000000''] ''eth0'') entropy ''eth0'' '''' 1500 '''' 3
       = ((''veth00000000'', None, Some (PeerAlreadyExists ''eth0'' ''veth00000000'')),
          [''veth00000000''])"
    unfolding makeVeth_def
    by (subst makeVeth_loop.simps) (simp add: r m p IsExist_def)
  then show ?thesis
    by (simp add: entropy_fixtures p)
       (simp add: makeVethPair_def container_view_def kernel0_def)
qed

subsection \<open>Check\<close>





















lemma example_cmdCheck_egress:
  "cmdCheck (example_env qdiscs (Some egress_only)) example_args =
     (case cmdCheck_verify (example_env qdiscs (Some egress_only)) ifb_link 1000000 1000000 of
        Some err \<Rightarrow> Err err | None \<Rightarrow> Ok ())"
  by (simp add: cmdCheck_def example_parseConfig example_entries_sel example_entries_valid
      example_env_sel example_args_sel example_getHostInterface example_getBandwidth
      cmdCheck_ingress_def cmdCheck_egress_def split: option.splits)



text \<open>
  C3 fails on the code.  A configuration that parses, has a previous result and no
  bandwidth entry, top-level or runtime: \<open>cmdCheck\<close> resolves the host link and then
  reads \<^verbatim>\<open>bandwidth.IngressRate\<close> through the nil pointer, which aborts the process, where
  \<open>cmdAdd\<close> on the same input tests for nil and prints the previous result.
\<close>

theorem cmdCheck_nil_bandwidth_panics:
  "cmdCheck (example_env [TbfQ good_tbf] None) example_args = Panic
   \<and> cmdAdd (example_env [TbfQ good_tbf] None) example_args = Ok (Some example_prev, ''1.0.0'')"
  by (simp add: cmdCheck_def cmdAdd_def PrintResult_def example_parseConfig example_env_sel
      example_args_sel example_getHostInterface example_getBandwidth)

subsection \<open>Del\<close>

lemma parseConfig_error:
  "parseConfig env stdin = Inl err \<Longrightarrow> err \<noteq> ErrLinkNotFound"
  by (auto simp: parseConfig_def validateRateAndBurst_def
      split: sum.splits option.splits if_splits)

text \<open>
  C7 (as amended).  With \<open>TeardownIfb\<close> as the spec describes it: when the configuration
  parses, \<open>cmdDel\<close> looks up, on the host, the link whose name is the formatting helper
  applied to 15, \<open>bwp\<close> and the network name followed by the container ID, and deletes
  it; it returns nil when the deletion succeeds and when the lookup reports the link
  absent, so a repeated Del succeeds too; any other error of the lookup and any error of
  the deletion is returned, wrapped.  When the configuration does not parse, \<open>cmdDel\<close>
  returns the parse error.  The NotFound sentinel is never returned.
\<close>

theorem cmdDel_absent_device:
  assumes "TeardownIfb env = TeardownIfb_spec (host env)"
  shows "(\<forall>conf name. parseConfig env (StdinData args) = Inr conf
            \<and> name = fmtHash env 15 ''bwp'' (PluginConf.Name conf @ ContainerID args) \<longrightarrow>
          cmdDel env args =
            (case LinkByName (host env) name of
               Inl e \<Rightarrow> if e = LinkNotFoundError then Ok () else Err (FailedToLookup name e)
             | Inr link \<Rightarrow>
                 (case LinkDel (host env) link of
                    None \<Rightarrow> Ok ()
                  | Some e \<Rightarrow> Err (FailedToDelete name e))))
         \<and> (\<forall>err. parseConfig env (StdinData args) = Inl err \<longrightarrow> cmdDel env args = Err err)
         \<and> cmdDel env args \<noteq> Err ErrLinkNotFound"
proof (intro conjI allI impI)
  fix conf name
  assume "parseConfig env (StdinData args) = Inr conf
            \<and> name = fmtHash env 15 ''bwp'' (PluginConf.Name conf @ ContainerID args)"
  then show "cmdDel env args =
            (case LinkByName (host env) name of
               Inl e \<Rightarrow> if e = LinkNotFoundError then Ok () else Err (FailedToLookup name e)
             | Inr link \<Rightarrow>
                 (case LinkDel (host env) link of
                    None \<Rightarrow> Ok ()
                  | Some e \<Rightarrow> Err (FailedToDelete name e)))"
    using assms
    by (auto simp: cmdDel_def TeardownIfb_spec_def DelLinkByName_def Let_def
        getIfbDeviceName_def maxIfbDeviceLength_def ifbDevicePrefix_def
        split: option.splits sum.splits)
next
  fix err assume "parseConfig env (StdinData args) = Inl err"
  then show "cmdDel env args = Err err" by (simp add: cmdDel_def)
next
  show "cmdDel env args \<noteq> Err ErrLinkNotFound"
    using assms parseConfig_error [of env "StdinData args"]
    by (auto simp: cmdDel_def TeardownIfb_spec_def DelLinkByName_def Let_def
        split: option.splits sum.splits if_splits)
qed

text \<open>
  C7 (as amended), on the example: Del where the auxiliary device is absent; where it
  exists and is deleted; where its deletion fails; and with a rate but no burst.
\<close>

theorem cmdDel_absent_device_witness:
  "cmdDel (no_ifb_env None) example_args = Ok ()
   \<and> LinkByName kernel0 ''bwp0123456789ab'' = Inl LinkNotFoundError
   \<and> cmdDel (example_env [] None) example_args = Ok ()
   \<and> LinkByName (example_host []) ''bwp0123456789ab'' = Inr ifb_link
   \<and> cmdDel ((example_env [] None)
        \<lparr>host := (example_host [])\<lparr>LinkDel := (\<lambda>link. Some (Errno ''EBUSY''))\<rparr>,
         TeardownIfb := TeardownIfb_spec
           ((example_host [])\<lparr>LinkDel := (\<lambda>link. Some (Errno ''EBUSY''))\<rparr>)\<rparr>) example_args
       = Err (FailedToDelete ''bwp0123456789ab'' (Errno ''EBUSY''))
   \<and> cmdDel (no_ifb_env (Some rate_only)) example_args = Err RateWithoutBurst"
proof -
  let ?E = "no_ifb_env None"
  let ?B = "(example_env [] None)
        \<lparr>host := (example_host [])\<lparr>LinkDel := (\<lambda>link. Some (Errno ''EBUSY''))\<rparr>,
         TeardownIfb := TeardownIfb_spec
           ((example_host [])\<lparr>LinkDel := (\<lambda>link. Some (Errno ''EBUSY''))\<rparr>)\<rparr>"
  let ?C = "(example_conf None)\<lparr>RawPrevResult := None, PrevResult := Some example_prev\<rparr>"
  have n: "LinkByName kernel0 ''bwp0123456789ab'' = Inl LinkNotFoundError"
    by (simp add: kernel0_def)
  have nm: "\<And>E. fmtHash E = fmtHash (example_env [] None) \<Longrightarrow>
      fmtHash E 15 ''bwp'' (PluginConf.Name ?C @ ContainerID example_args) = ''bwp0123456789ab''"
    by (simp add: example_env_def MustFormatHashWithPrefix_def example_conf_def
        example_args_def)
  have pE: "parseConfig ?E (StdinData example_args) = Inr ?C"
    by (simp add: parseConfig_def no_ifb_env_def example_env_def example_conf_def
        getBandwidth_def)
  have 1: "cmdDel ?E example_args = Ok ()"
    using cmdDel_absent_device [of ?E example_args, THEN conjunct1, THEN spec, THEN spec,
        of ?C "''bwp0123456789ab''"] pE n nm [of ?E]
    by (simp add: no_ifb_env_def)
  have p2: "parseConfig (example_env [] None) (StdinData example_args) = Inr ?C"
    by (simp add: example_parseConfig)
  have 2: "cmdDel (example_env [] None) example_args = Ok ()"
    using cmdDel_absent_device [of "example_env [] None" example_args, THEN conjunct1,
        THEN spec, THEN spec, of ?C "''bwp0123456789ab''"] p2 nm [of "example_env [] None"]
    by (simp add: example_env_sel) (simp add: example_host_def kernel0_def)
  have pB: "parseConfig ?B (StdinData example_args) = Inr ?C"
    by (simp add: parseConfig_def example_env_def example_conf_def getBandwidth_def)
  have 3: "cmdDel ?B example_args = Err (FailedToDelete ''bwp0123456789ab'' (Errno ''EBUSY''))"
    using cmdDel_absent_device [of ?B example_args, THEN conjunct1, THEN spec, THEN spec,
        of ?C "''bwp0123456789ab''"] pB nm [of ?B]
    by (simp add: example_env_sel)
  have p4: "parseConfig (no_ifb_env (Some rate_only)) (StdinData example_args)
      = Inl RateWithoutBurst"
    by (simp add: parseConfig_def no_ifb_env_def example_env_def example_conf_def
        getBandwidth_def rate_only_def validateRateAndBurst_def)
  have 4: "cmdDel (no_ifb_env (Some rate_only)) example_args = Err RateWithoutBurst"
    using cmdDel_absent_device [of "no_ifb_env (Some rate_only)" example_args,
        THEN conjunct2, THEN conjunct1] p4
    by (simp add: no_ifb_env_def)
  from 1 2 3 4 n show ?thesis by (simp add: example_env_sel)
qed

text \<open>
  C7 (as stated) fails: with an ingress rate but no burst in the configuration, and the
  auxiliary device absent, \<open>cmdDel\<close> returns the validation error, not success.
\<close>

theorem cmdDel_invalid_config_counterexample:
  "cmdDel (no_ifb_env (Some rate_only)) example_args = Err RateWithoutBurst
   \<and> LinkByName (host (no_ifb_env (Some rate_only))) ''bwp0123456789ab''
       = Inl LinkNotFoundError
   \<and> getIfbDeviceName (fmtHash (no_ifb_env (Some rate_only))) ''net1'' ''cid1''
       = ''bwp0123456789ab''"
  by (simp add: cmdDel_def parseConfig_def no_ifb_env_def example_env_def example_conf_def
      getBandwidth_def rate_only_def validateRateAndBurst_def kernel0_def
      getIfbDeviceName_def MustFormatHashWithPrefix_def maxIfbDeviceLength_def
      ifbDevicePrefix_def)

end
